theory Spec2Isabelle
  imports Complex_Main
begin

section \<open>Gesture classifier (src/hooks/useTensorFlowHandTracking.ts)\<close>

text \<open>
  JavaScript numbers are modelled as mathematical reals: the development is about the
  control flow and the arithmetic of the game, not about IEEE rounding.  Reading a
  property of \<open>undefined\<close> throws a \<open>TypeError\<close>; reading past the end of an array
  yields \<open>undefined\<close>, and a relational comparison with \<open>undefined\<close> is false.
\<close>

datatype js_error = TypeError

definition js_index :: "'a list \<Rightarrow> nat \<Rightarrow> 'a option" where
  "js_index xs i = (if i < length xs then Some (xs ! i) else None)"

definition js_lt :: "real option \<Rightarrow> real option \<Rightarrow> bool" where
  "js_lt a b = (case a of None \<Rightarrow> False | Some u \<Rightarrow> (case b of None \<Rightarrow> False | Some v \<Rightarrow> u < v))"

text \<open>
  \<open>isExtended ls tip joint\<close> is the expression \<open>landmarks[tip][1] < landmarks[joint][1]\<close>:
  it throws when either landmark is missing.
\<close>

definition isExtended :: "real list list \<Rightarrow> nat \<Rightarrow> nat \<Rightarrow> js_error + bool" where
  "isExtended landmarks tip joint =
     (case js_index landmarks tip of
        None \<Rightarrow> Inl TypeError
      | Some t \<Rightarrow>
          (case js_index landmarks joint of
             None \<Rightarrow> Inl TypeError
           | Some j \<Rightarrow> Inr (js_lt (js_index t 1) (js_index j 1))))"

text \<open>The chain of tests on the five comparison results, first match wins.\<close>

definition classify :: "bool \<Rightarrow> bool \<Rightarrow> bool \<Rightarrow> bool \<Rightarrow> bool \<Rightarrow> string" where
  "classify isThumbExtended isIndexExtended isMiddleExtended isRingExtended isPinkyExtended =
     (let extendedCount = length (filter id
            [isThumbExtended, isIndexExtended, isMiddleExtended, isRingExtended, isPinkyExtended])
      in if \<not> isIndexExtended \<and> \<not> isMiddleExtended \<and> \<not> isRingExtended \<and> \<not> isPinkyExtended
           then ''fist''
         else if extendedCount = 5 then ''palm''
         else if isIndexExtended \<and> \<not> isMiddleExtended \<and> \<not> isRingExtended \<and> \<not> isPinkyExtended
           then ''point''
         else if isIndexExtended \<and> isMiddleExtended \<and> \<not> isRingExtended \<and> \<not> isPinkyExtended
           then ''peace''
         else if isThumbExtended \<and> isIndexExtended \<and> isPinkyExtended
                 \<and> \<not> isMiddleExtended \<and> \<not> isRingExtended
           then ''rock''
         else ''unknown'')"

text \<open>
  \<open>detectGesture\<close>: the argument is \<open>None\<close> for a null or undefined landmark array.
  The five comparisons are evaluated in the source's order (thumb, index, middle, ring,
  pinky), each of them able to throw.
\<close>

definition detectGesture :: "real list list option \<Rightarrow> js_error + string" where
  "detectGesture lm =
     (case lm of
        None \<Rightarrow> Inr ''none''
      | Some landmarks \<Rightarrow>
          if length landmarks = 0 then Inr ''none''
          else
            (case isExtended landmarks 4 2 of Inl e \<Rightarrow> Inl e | Inr isThumbExtended \<Rightarrow>
            (case isExtended landmarks 8 6 of Inl e \<Rightarrow> Inl e | Inr isIndexExtended \<Rightarrow>
            (case isExtended landmarks 12 10 of Inl e \<Rightarrow> Inl e | Inr isMiddleExtended \<Rightarrow>
            (case isExtended landmarks 16 14 of Inl e \<Rightarrow> Inl e | Inr isRingExtended \<Rightarrow>
            (case isExtended landmarks 20 18 of Inl e \<Rightarrow> Inl e | Inr isPinkyExtended \<Rightarrow>
               Inr (classify isThumbExtended isIndexExtended isMiddleExtended
                      isRingExtended isPinkyExtended)))))))"

text \<open>A hand with thumb and index raised and the other three digits curled: landmark
  \<open>i\<close> is \<open>[0, y, 0]\<close> with \<open>y = 0\<close> at the thumb tip (4) and the index tip (8), \<open>y = 2\<close> at
  the middle, ring and pinky tips (12, 16, 20) and \<open>y = 1\<close> at every other joint.\<close>

definition thumbIndexHand :: "real list list" where
  "thumbIndexHand =
     map (\<lambda>i. [0, (if i = 4 \<or> i = 8 then 0 else if i = 12 \<or> i = 16 \<or> i = 20 then 2 else 1), 0])
       [0..<21]"


section \<open>Data model (src/types/hand.ts, src/components/MagicSpellSystem.tsx)\<close>

text \<open>
  Record fields carry the source's names, prefixed where two interfaces share a name
  (\<open>x\<close>, \<open>y\<close>, \<open>color\<close>, \<open>id\<close>, \<open>gesture\<close>) or where the name is a HOL constant.
  The display-only fields \<open>name\<close> and \<open>icon\<close> of a spell (non-ASCII texts) and the fields
  \<open>confidence\<close> and \<open>boundingBox\<close> of the hand data, which the game logic never reads,
  are left out.
\<close>

record handKeypoint =
  kp_x :: real
  kp_y :: real
  kp_z :: real
  kp_name :: string

record handData =
  keypoints :: "handKeypoint list"
  gesture :: string

datatype element = Fire | Water | Wind | Lightning

record spell =
  spell_id :: string
  element :: element
  damage :: real
  manaCost :: int
  color :: string
  particleColor :: string
  spell_gesture :: string
  chargeTime :: real

record target =
  target_x :: real
  target_y :: real
  health :: real
  maxHealth :: real

record particle =
  part_x :: real
  part_y :: real
  vx :: real
  vy :: real
  life :: real
  part_color :: string
  part_size :: real

record spellProjectile =
  proj_id :: nat
  proj_spell :: spell
  proj_x :: real
  proj_y :: real
  targetX :: real
  targetY :: real
  speed :: real
  particles :: "particle list"

definition fireball :: spell where
  "fireball = \<lparr> spell_id = ''fireball'', element = Fire, damage = 30, manaCost = 15,
     color = ''#ff6b35'', particleColor = ''#ffa500'', spell_gesture = ''point'',
     chargeTime = 1000 \<rparr>"

definition waterwave :: spell where
  "waterwave = \<lparr> spell_id = ''waterwave'', element = Water, damage = 20, manaCost = 10,
     color = ''#4fc3f7'', particleColor = ''#29b6f6'', spell_gesture = ''peace'',
     chargeTime = 800 \<rparr>"

definition lightning :: spell where
  "lightning = \<lparr> spell_id = ''lightning'', element = Lightning, damage = 40, manaCost = 20,
     color = ''#ffd54f'', particleColor = ''#ffeb3b'', spell_gesture = ''rock'',
     chargeTime = 1500 \<rparr>"

definition SPELLS :: "spell list" where
  "SPELLS = [fireball, waterwave, lightning]"

text \<open>
  The state of the application: the \<open>useState\<close> cells of \<open>App\<close> (mana, experience,
  level) and of the hand tracking hook it calls (the hand data, \<open>None\<close> for \<open>null\<close>),
  the \<open>useState\<close> and \<open>useRef\<close> cells of \<open>MagicSpellSystem\<close>, the window size
  read when the target is placed, and what the browser and React hold for the
  component: the pending \<open>setTimeout\<close> callbacks (each with its delay in ms) and the
  dependency values with which the respawn effect last ran.

  \<open>onExperienceGainId\<close> is the identity of the function passed as the prop
  \<open>onExperienceGain\<close>.  \<open>App\<close> defines \<open>handleExperienceGain\<close> as a plain arrow function
  in its body, so every render of \<open>App\<close> passes a new function object.
\<close>

record game =
  mana :: int
  experience :: int
  level :: int
  handData :: "handData option"
  onExperienceGainId :: nat
  innerWidth :: real
  innerHeight :: real
  scarecrow :: target
  projectiles :: "spellProjectile list"
  currentSpell :: "spell option"
  isCharging :: bool
  chargeProgress :: real
  comboCount :: int
  hitCount :: int
  chargeStartTime :: nat
  lastGestureRef :: string
  comboCountRef :: int
  comboTimeouts :: "nat list"
  respawnTimeouts :: "nat list"
  respawnDeps :: "(real \<times> nat) option"

section \<open>Resource ledger (src/App.tsx)\<close>

text \<open>A render of \<open>App\<close> creates a new \<open>handleExperienceGain\<close>.\<close>

definition renderApp :: "game \<Rightarrow> game" where
  "renderApp s = s\<lparr> onExperienceGainId := Suc (onExperienceGainId s) \<rparr>"

text \<open>\<open>setMana\<close> with a value: React re-renders unless the value is the one it holds.\<close>

definition setMana :: "int \<Rightarrow> game \<Rightarrow> game" where
  "setMana v s = (if v = mana s then s else renderApp (s\<lparr> mana := v \<rparr>))"

text \<open>\<open>setHandData\<close> at the end of a detection cycle: a detected hand is a new object
  and always causes a render; \<open>null\<close> over \<open>null\<close> causes none.\<close>

definition setHandData :: "handData option \<Rightarrow> game \<Rightarrow> game" where
  "setHandData hand s =
     (if hand = None \<and> handData s = None then s else renderApp (s\<lparr> handData := hand \<rparr>))"

text \<open>The callback of the 1000 ms interval: \<open>setMana(prev => Math.min(100, prev + 2))\<close>.\<close>

definition manaRegen :: "game \<Rightarrow> game" where
  "manaRegen s = setMana (min 100 (mana s + 2)) s"

text \<open>\<open>handleExperienceGain\<close>: the updater of \<open>setExperience\<close>, with the \<open>setLevel\<close> it
  issues on a wrap; a state update that changes nothing causes no render.\<close>

definition handleExperienceGain :: "int \<Rightarrow> game \<Rightarrow> game" where
  "handleExperienceGain xp s =
     (let newExp = experience s + xp in
      if newExp \<ge> 100 then renderApp (s\<lparr> level := level s + 1, experience := newExp - 100 \<rparr>)
      else if newExp = experience s then s
      else renderApp (s\<lparr> experience := newExp \<rparr>))"


section \<open>Cast state machine (src/components/MagicSpellSystem.tsx)\<close>

text \<open>
  \<open>castSpell\<close>, with the clock value \<open>now\<close> read by \<open>Date.now()\<close> and the hand data of
  the render.  The guard returns without any effect.  Past the guard, mana is set to
  the rendered mana minus the cost, a projectile starts at the index finger tip
  (\<open>keypoints[8]\<close>, a \<open>TypeError\<close> when that entry is missing) aimed at the target's
  position, the combo counter is incremented and a 5000 ms timeout is registered
  for its decrement, and the current spell is cleared.  Playing the sound is a call
  into the browser without effect on the state.
\<close>

definition castSpell :: "nat \<Rightarrow> handData option \<Rightarrow> spell \<Rightarrow> game \<Rightarrow> js_error + game" where
  "castSpell now hand spell s =
     (case hand of
        None \<Rightarrow> Inr s
      | Some h \<Rightarrow>
          if mana s < manaCost spell then Inr s
          else
            (case js_index (keypoints h) 8 of
               None \<Rightarrow> Inl TypeError
             | Some tip \<Rightarrow>
                 (let s1 = setMana (mana s - manaCost spell) s;
                      projectile = \<lparr> proj_id = now, proj_spell = spell,
                        proj_x = kp_x tip, proj_y = kp_y tip,
                        targetX = target_x (scarecrow s), targetY = target_y (scarecrow s),
                        speed = 15, particles = [] \<rparr>
                  in Inr (s1\<lparr> projectiles := projectiles s1 @ [projectile],
                             comboCountRef := comboCountRef s1 + 1,
                             comboCount := comboCountRef s1 + 1,
                             comboTimeouts := comboTimeouts s1 @ [5000],
                             currentSpell := None \<rparr>))))"

text \<open>The callback of the combo timeout.\<close>

definition comboTimeout :: "game \<Rightarrow> game" where
  "comboTimeout s =
     (case comboTimeouts s of
        [] \<Rightarrow> s
      | t # ts \<Rightarrow> s\<lparr> comboTimeouts := ts,
                     comboCountRef := max 0 (comboCountRef s - 1),
                     comboCount := max 0 (comboCountRef s - 1) \<rparr>)"

text \<open>
  The body of the effect "Detect spell gesture and charge", run with the hand data
  of the render.  The conditions read the rendered values of \<open>isCharging\<close>,
  \<open>currentSpell\<close> and \<open>mana\<close> (those of \<open>s\<close>); the first block writes only
  \<open>currentSpell\<close>, \<open>isCharging\<close> and \<open>chargeStartTime\<close>, none of which \<open>castSpell\<close> reads.
\<close>

definition gestureEffect :: "nat \<Rightarrow> handData option \<Rightarrow> game \<Rightarrow> js_error + game" where
  "gestureEffect now hand s =
     (case hand of
        None \<Rightarrow> Inr (s\<lparr> isCharging := False, chargeProgress := 0 \<rparr>)
      | Some h \<Rightarrow>
          (let g = gesture h;
               lastGesture = lastGestureRef s;
               s1 = (if lastGesture = ''fist'' \<and> g \<noteq> ''fist'' \<and> g \<noteq> ''none'' then
                       (case find (\<lambda>sp. spell_gesture sp = g) SPELLS of
                          None \<Rightarrow> s
                        | Some spell \<Rightarrow>
                            if mana s \<ge> manaCost spell
                            then s\<lparr> currentSpell := Some spell, isCharging := True,
                                    chargeStartTime := now \<rparr>
                            else s)
                     else s)
           in (case (if isCharging s \<and> g = ''palm'' then currentSpell s else None) of
                 Some spell \<Rightarrow>
                   (case castSpell now hand spell s1 of
                      Inl e \<Rightarrow> Inl e
                    | Inr s2 \<Rightarrow> Inr (s2\<lparr> isCharging := False, chargeProgress := 0,
                                        lastGestureRef := g \<rparr>))
               | None \<Rightarrow> Inr (s1\<lparr> lastGestureRef := g \<rparr>))))"

text \<open>One call of \<open>updateCharge\<close> (the effect "Update charge progress").\<close>

definition updateCharge :: "nat \<Rightarrow> game \<Rightarrow> game" where
  "updateCharge now s =
     (if isCharging s then
        (case currentSpell s of
           None \<Rightarrow> s
         | Some sp \<Rightarrow>
             s\<lparr> chargeProgress := min ((real now - real (chargeStartTime s)) / chargeTime sp) 1 \<rparr>)
      else s)"

text \<open>The states of the cast state machine, read off the component's state: the
  machine is charging when \<open>isCharging && currentSpell\<close> holds (the test of the release
  branch and of the charging display).\<close>

datatype castState = Idle | Charging spell nat

definition castStateOf :: "game \<Rightarrow> castState" where
  "castStateOf s =
     (if isCharging s then
        (case currentSpell s of None \<Rightarrow> Idle | Some sp \<Rightarrow> Charging sp (chargeStartTime s))
      else Idle)"

section \<open>Combat simulator (src/components/MagicSpellSystem.tsx)\<close>

text \<open>
  The effect "Reset scarecrow health when it dies", dependencies
  \<open>[scarecrow.health, onExperienceGain]\<close>: its body registers a 1500 ms timeout when
  the health is not positive, and React runs the body after a render whenever one of
  the two dependencies differs from its value at the previous run.  The effect has no
  cleanup, so a registered timeout is never cancelled.
\<close>

definition respawnEffectBody :: "game \<Rightarrow> game" where
  "respawnEffectBody s =
     (if health (scarecrow s) \<le> 0 then s\<lparr> respawnTimeouts := respawnTimeouts s @ [1500] \<rparr>
      else s)"

definition respawnEffect :: "game \<Rightarrow> game" where
  "respawnEffect s =
     (let deps = (health (scarecrow s), onExperienceGainId s) in
      if respawnDeps s = Some deps then s
      else respawnEffectBody (s\<lparr> respawnDeps := Some deps \<rparr>))"

text \<open>The callback of the respawn timeout.\<close>

definition respawnTimeout :: "game \<Rightarrow> game" where
  "respawnTimeout s =
     (case respawnTimeouts s of
        [] \<Rightarrow> s
      | t # ts \<Rightarrow>
          handleExperienceGain 50
            (s\<lparr> respawnTimeouts := ts,
                scarecrow := \<lparr> target_x = innerWidth s * 0.75, target_y = innerHeight s / 2,
                               health = 500, maxHealth = 500 \<rparr> \<rparr>))"

text \<open>
  \<open>Math.hypot\<close> and the distance of a projectile to its target point, in real
  arithmetic.  The doubles of the program differ from these values in their last
  bits.  That leaves signs, the direction of the movement and the damage formula as
  they are, but where a distance comes within that error of the hit radius the test
  \<open>dist < 30\<close> can go either way, and the frame that resolves a hit can be one frame
  off the frame of real arithmetic.  Frame counts are therefore stated below with a
  tolerance of one frame.
\<close>

definition hypot :: "real \<Rightarrow> real \<Rightarrow> real" where
  "hypot a b = sqrt (a\<^sup>2 + b\<^sup>2)"

definition distToTarget :: "spellProjectile \<Rightarrow> real" where
  "distToTarget p = hypot (targetX p - proj_x p) (targetY p - proj_y p)"

text \<open>
  \<open>Math.random()\<close> is a parameter: \<open>rnd j k\<close> is draw \<open>k\<close> (0 for \<open>vx\<close>, 1 for \<open>vy\<close>, 2 for
  \<open>size\<close>) of the \<open>j\<close>-th new particle of a projectile in a frame.
\<close>

definition newParticles :: "(nat \<Rightarrow> nat \<Rightarrow> real) \<Rightarrow> spellProjectile \<Rightarrow> particle list" where
  "newParticles rnd p =
     map (\<lambda>j. \<lparr> part_x = proj_x p, part_y = proj_y p,
               vx = (rnd j 0 - 0.5) * 2, vy = (rnd j 1 - 0.5) * 2, life = 1,
               part_color = particleColor (proj_spell p), part_size = rnd j 2 * 4 + 2 \<rparr>)
       [0..<3]"

text \<open>The branch of the \<open>map\<close> callback for a projectile that has not reached the target.\<close>

definition moveProjectile :: "(nat \<Rightarrow> nat \<Rightarrow> real) \<Rightarrow> spellProjectile \<Rightarrow> spellProjectile" where
  "moveProjectile rnd p =
     (let dx = targetX p - proj_x p;
          dy = targetY p - proj_y p;
          dist = hypot dx dy
      in p\<lparr> proj_x := proj_x p + (dx / dist) * speed p,
            proj_y := proj_y p + (dy / dist) * speed p,
            particles :=
              filter (\<lambda>q. life q > 0)
                (map (\<lambda>q. q\<lparr> part_x := part_x q + vx q, part_y := part_y q + vy q,
                             life := life q - 0.02 \<rparr>)
                   (particles p @ newParticles rnd p)) \<rparr>)"

text \<open>The branch for a projectile within the hit radius: the three state updates it
  queues, with the combo counter read from the ref when the callback runs.\<close>

definition hitScarecrow :: "int \<Rightarrow> spellProjectile \<Rightarrow> game \<Rightarrow> game" where
  "hitScarecrow combo p s =
     (let dmg = damage (proj_spell p) * (1 + real_of_int combo * 0.1) in
      handleExperienceGain 5
        (s\<lparr> scarecrow := (scarecrow s)\<lparr> health := max 0 (health (scarecrow s) - dmg) \<rparr>,
            hitCount := hitCount s + 1 \<rparr>))"

text \<open>
  The callback of the \<open>map\<close> in \<open>updateProjectiles\<close>: \<open>None\<close> is the source's \<open>null\<close>
  (the projectile is removed).
\<close>

definition stepProjectile :: "(nat \<Rightarrow> nat \<Rightarrow> real) \<Rightarrow> spellProjectile \<Rightarrow> spellProjectile option" where
  "stepProjectile rnd p = (if distToTarget p < 30 then None else Some (moveProjectile rnd p))"

text \<open>
  One run of the state updater of \<open>updateProjectiles\<close> (one simulation frame); \<open>rnd i\<close>
  are the random draws for the projectile at index \<open>i\<close>.  The updates queued by the
  hits are applied in the order of the list.
\<close>

definition updateProjectiles :: "(nat \<Rightarrow> nat \<Rightarrow> nat \<Rightarrow> real) \<Rightarrow> game \<Rightarrow> game" where
  "updateProjectiles rnd s =
     (let prev = projectiles s in
      if length prev = 0 then s
      else
        (let s1 = foldl (\<lambda>a p. if distToTarget p < 30 then hitScarecrow (comboCountRef s) p a else a)
                    s prev;
             updated = List.map_filter (\<lambda>(i, p). stepProjectile (rnd i) p) (enumerate 0 prev)
         in s1\<lparr> projectiles := updated \<rparr>))"

section \<open>Events\<close>

text \<open>
  What can happen to the running application, one event per callback the browser or
  React invokes: a pose detection cycle delivering hand data at a clock value (the
  hook stores the hand data and the gesture effect runs with it after the render),
  a run of the updater of the projectile loop (a frame) or of \<open>updateCharge\<close>, a
  tick of the mana interval, the expiry of the oldest pending combo or respawn
  timeout, and the commit of a render (the respawn effect runs if one of its
  dependencies changed).

  \<open>step\<close> is the callback alone.  React follows an event up with callbacks of its
  own, which are events of the trace in their turn.  Every render of \<open>App\<close> passes a
  new \<open>onExperienceGain\<close>, on which two effects depend: the respawn effect, which
  runs again (\<open>Commit\<close>), and the projectile loop, which is torn down and started
  again and runs \<open>updateProjectiles()\<close> at once (\<open>AnimationFrame\<close>), apart from the
  frames the browser requests.  When charging starts, the charge display runs
  \<open>updateCharge\<close> (\<open>ChargeFrame\<close>).  So a detection cycle, a mana tick that changes
  mana, a respawn timeout and a frame with a hit are each followed by a commit and a
  frame in the running application, a release of a spell by two of each (the hand
  data and then the mana render \<open>App\<close>).  A render that changes \<open>isCharging\<close>,
  \<open>currentSpell\<close>, \<open>mana\<close> or \<open>castSpell\<close> also runs the gesture effect again on
  the hand data it already has; such a run changes nothing in any state
  the application reaches (lemma \<open>gestureEffect_rerun\<close>) and is not an event.  The properties of traces below are
  stated for every such follow-up: for all event sequences, or for all sequences of
  \<open>reactive\<close> events between the cycles they are about.
\<close>

datatype event =
    Detection "handData option" nat
  | AnimationFrame "nat \<Rightarrow> nat \<Rightarrow> nat \<Rightarrow> real"
  | ChargeFrame nat
  | ManaInterval
  | ComboTimeout
  | RespawnTimeout
  | Commit

fun step :: "event \<Rightarrow> game \<Rightarrow> js_error + game" where
  "step (Detection hand now) s = gestureEffect now hand (setHandData hand s)"
| "step (AnimationFrame rnd) s = Inr (updateProjectiles rnd s)"
| "step (ChargeFrame now) s = Inr (updateCharge now s)"
| "step ManaInterval s = Inr (manaRegen s)"
| "step ComboTimeout s = Inr (comboTimeout s)"
| "step RespawnTimeout s = Inr (respawnTimeout s)"
| "step Commit s = Inr (respawnEffect s)"

fun run :: "event list \<Rightarrow> game \<Rightarrow> js_error + game" where
  "run [] s = Inr s"
| "run (e # es) s = (case step e s of Inl err \<Rightarrow> Inl err | Inr s' \<Rightarrow> run es s')"

text \<open>The callbacks React runs on its own account.\<close>

fun reactive :: "event \<Rightarrow> bool" where
  "reactive (AnimationFrame rnd) = True"
| "reactive (ChargeFrame now) = True"
| "reactive Commit = True"
| "reactive (Detection hand now) = False"
| "reactive ManaInterval = False"
| "reactive ComboTimeout = False"
| "reactive RespawnTimeout = False"

text \<open>The state at mount, for a window of the given size.\<close>

definition initialGame :: "real \<Rightarrow> real \<Rightarrow> game" where
  "initialGame w h =
     \<lparr> mana = 100, experience = 0, level = 1, handData = None, onExperienceGainId = 0,
       innerWidth = w, innerHeight = h,
       scarecrow = \<lparr> target_x = w * 0.75, target_y = h / 2, health = 500, maxHealth = 500 \<rparr>,
       projectiles = [], currentSpell = None, isCharging = False, chargeProgress = 0,
       comboCount = 0, hitCount = 0, chargeStartTime = 0, lastGestureRef = ''none'',
       comboCountRef = 0, comboTimeouts = [], respawnTimeouts = [], respawnDeps = None \<rparr>"

section \<open>Auxiliary notions for the properties\<close>

text \<open>The ledger is in range and the selected spell, if any, is one of the catalogue
  (the gesture effect only ever selects a spell found in \<open>SPELLS\<close>).\<close>

definition manaInv :: "game \<Rightarrow> bool" where
  "manaInv s \<longleftrightarrow> 0 \<le> mana s \<and> mana s \<le> 100 \<and>
     (case currentSpell s of None \<Rightarrow> True | Some sp \<Rightarrow> sp \<in> set SPELLS)"

text \<open>Hand data of 21 keypoints, all at the given screen position, with the given
  gesture label.\<close>

definition sampleHand :: "real \<Rightarrow> real \<Rightarrow> string \<Rightarrow> handData" where
  "sampleHand px py g =
     \<lparr> keypoints = replicate 21 \<lparr> kp_x = px, kp_y = py, kp_z = 0, kp_name = ''keypoint'' \<rparr>,
       gesture = g \<rparr>"

text \<open>A charge and release of the fireball: fist, point, palm.\<close>

definition castTrace :: "event list" where
  "castTrace =
     [Detection (Some (sampleHand 100 200 ''fist'')) 1000,
      Detection (Some (sampleHand 100 200 ''point'')) 1100,
      Detection (Some (sampleHand 100 200 ''palm'')) 1200]"

text \<open>The state reached from the initial one by the first two cycles of that trace
  (fist, point): charging the fireball.\<close>

definition chargedGame :: game where
  "chargedGame =
     (initialGame 800 600)\<lparr> handData := Some (sampleHand 100 200 ''point''),
        onExperienceGainId := 2, currentSpell := Some fireball, isCharging := True,
        chargeStartTime := 1100, lastGestureRef := ''point'' \<rparr>"

text \<open>The collision test of the frame and the damage it computes for a hit.\<close>

definition isHit :: "spellProjectile \<Rightarrow> bool" where
  "isHit p \<longleftrightarrow> distToTarget p < 30"

definition hitDamage :: "int \<Rightarrow> spellProjectile \<Rightarrow> real" where
  "hitDamage combo p = damage (proj_spell p) * (1 + 0.1 * real_of_int combo)"

text \<open>A fireball 40 units left of the target of the initial state, alone in flight,
  and random draws without jitter.\<close>

definition fireballAt40 :: spellProjectile where
  "fireballAt40 = \<lparr> proj_id = 0, proj_spell = fireball, proj_x = 560, proj_y = 300,
     targetX = 600, targetY = 300, speed = 15, particles = [] \<rparr>"

definition flightGame :: game where
  "flightGame = (initialGame 800 600)\<lparr> projectiles := [fireballAt40] \<rparr>"

definition noJitter :: "nat \<Rightarrow> nat \<Rightarrow> nat \<Rightarrow> real" where
  "noJitter i j k = 0.5"

text \<open>A fireball that has reached the target of the initial state, alone in flight,
  with the combo counter at 3.\<close>

definition fireballAtTarget :: spellProjectile where
  "fireballAtTarget = \<lparr> proj_id = 0, proj_spell = fireball, proj_x = 600, proj_y = 300,
     targetX = 600, targetY = 300, speed = 15, particles = [] \<rparr>"

definition impactGame :: game where
  "impactGame = (initialGame 800 600)\<lparr> projectiles := [fireballAtTarget],
     comboCountRef := 3, comboCount := 3 \<rparr>"

text \<open>Every projectile in flight has the speed \<open>castSpell\<close> gives it.\<close>

definition speedInv :: "game \<Rightarrow> bool" where
  "speedInv s \<longleftrightarrow> (\<forall>p \<in> set (projectiles s). speed p = 15)"

text \<open>
  A state late in a fight: the target has 30 health left, mana is 85, and a fireball
  has reached the target; the respawn effect last ran with the current health and
  callback.  The trace: the frame resolves the hit (health 0, +5 experience) and
  React commits the render; the mana interval ticks (87) and React commits the render
  of \<open>App\<close>; then the pending respawn timeouts expire, each followed by a commit.
\<close>

definition defeatGame :: game where
  "defeatGame =
     (initialGame 800 600)\<lparr> mana := 85,
        scarecrow := \<lparr> target_x = 600, target_y = 300, health = 30, maxHealth = 500 \<rparr>,
        projectiles := [fireballAtTarget],
        respawnDeps := Some (30, 0) \<rparr>"

definition defeatTrace :: "event list" where
  "defeatTrace =
     [AnimationFrame noJitter, Commit, ManaInterval, Commit,
      RespawnTimeout, Commit, RespawnTimeout, Commit]"

text \<open>What the ledger and the target show of a state.\<close>

definition ledger :: "game \<Rightarrow> real \<times> int \<times> int \<times> nat list" where
  "ledger s = (health (scarecrow s), experience s, level s, respawnTimeouts s)"

text \<open>
  The projectiles spawned so far, as far as the state shows them: a projectile is in
  the list from its spawn until the frame that resolves its hit, which removes it
  and counts the hit.
\<close>

definition spawnCount :: "game \<Rightarrow> int" where
  "spawnCount s = int (length (projectiles s)) + hitCount s"

text \<open>Two records of one shot: a frame changes the position and the particles of a
  projectile and nothing else.\<close>

definition sameShot :: "spellProjectile \<Rightarrow> spellProjectile \<Rightarrow> bool" where
  "sameShot p q \<longleftrightarrow>
     proj_id q = proj_id p \<and> proj_spell q = proj_spell p \<and> targetX q = targetX p \<and>
     targetY q = targetY p \<and> speed q = speed p"

text \<open>What frames, charge frames and commits leave as it is.\<close>

definition keeps :: "game \<Rightarrow> game \<Rightarrow> bool" where
  "keeps s s' \<longleftrightarrow>
     mana s' = mana s \<and> isCharging s' = isCharging s \<and> currentSpell s' = currentSpell s \<and>
     chargeStartTime s' = chargeStartTime s \<and> lastGestureRef s' = lastGestureRef s \<and>
     comboCountRef s' = comboCountRef s \<and> comboTimeouts s' = comboTimeouts s \<and>
     target_x (scarecrow s') = target_x (scarecrow s) \<and>
     target_y (scarecrow s') = target_y (scarecrow s) \<and>
     spawnCount s' = spawnCount s \<and> handData s' = handData s \<and>
     (\<not> isCharging s \<longrightarrow> chargeProgress s' = chargeProgress s) \<and>
     (\<forall>q \<in> set (projectiles s'). \<exists>p \<in> set (projectiles s). sameShot p q)"

text \<open>
  A state in which the gesture effect has run on the hand data the hook holds: the
  last gesture is the one of the hand data and no release is due (without a hand,
  charging is off and the progress 0).
\<close>

definition settled :: "game \<Rightarrow> bool" where
  "settled s \<longleftrightarrow>
     (case handData s of
        None \<Rightarrow> \<not> isCharging s \<and> chargeProgress s = 0
      | Some h \<Rightarrow> lastGestureRef s = gesture h
          \<and> \<not> (isCharging s \<and> gesture h = ''palm'' \<and> currentSpell s \<noteq> None))"

text \<open>
  The cycles fist, point, palm with the hand 500 units left of the target, each
  followed by the callbacks React runs after it: after fist and point a commit and a
  frame (and \<open>updateCharge\<close> when charging has started), after palm two commits and two
  frames.
\<close>

definition releaseTrace :: "event list" where
  "releaseTrace =
     [Detection (Some (sampleHand 100 300 ''fist'')) 1000, Commit, AnimationFrame noJitter,
      Detection (Some (sampleHand 100 300 ''point'')) 1100, Commit, AnimationFrame noJitter,
      ChargeFrame 1100,
      Detection (Some (sampleHand 100 300 ''palm'')) 1200, Commit, AnimationFrame noJitter,
      Commit, AnimationFrame noJitter]"


section \<open>Lemmas about the gesture classifier\<close>

lemma classify_point_iff:
  "classify t i m r p = ''point'' \<longleftrightarrow> i \<and> \<not> m \<and> \<not> r \<and> \<not> p"
  by (auto simp add: classify_def Let_def)

lemma isExtended_Nil: "isExtended [] tip joint = Inl TypeError"
  by (simp add: isExtended_def js_index_def)

section \<open>Lemmas about the resource ledger\<close>

lemma mana_setMana [simp]: "mana (setMana v s) = v"
  by (simp add: setMana_def renderApp_def)

lemma currentSpell_setMana [simp]: "currentSpell (setMana v s) = currentSpell s"
  by (simp add: setMana_def renderApp_def)

lemma setHandData_fields [simp]:
  "mana (setHandData hand s) = mana s"
  "currentSpell (setHandData hand s) = currentSpell s"
  "isCharging (setHandData hand s) = isCharging s"
  "projectiles (setHandData hand s) = projectiles s"
  "scarecrow (setHandData hand s) = scarecrow s"
  "lastGestureRef (setHandData hand s) = lastGestureRef s"
  "comboCountRef (setHandData hand s) = comboCountRef s"
  "chargeStartTime (setHandData hand s) = chargeStartTime s"
  by (simp_all add: setHandData_def renderApp_def)

lemma setMana_fields [simp]:
  "comboCountRef (setMana v s) = comboCountRef s"
  "isCharging (setMana v s) = isCharging s"
  "lastGestureRef (setMana v s) = lastGestureRef s"
  "chargeStartTime (setMana v s) = chargeStartTime s"
  by (simp_all add: setMana_def renderApp_def)

lemma manaInv_setHandData: "manaInv s \<Longrightarrow> manaInv (setHandData hand s)"
  by (simp add: manaInv_def)

lemma mana_handleExperienceGain [simp]: "mana (handleExperienceGain xp s) = mana s"
  by (simp add: handleExperienceGain_def renderApp_def Let_def)

lemma currentSpell_handleExperienceGain [simp]:
  "currentSpell (handleExperienceGain xp s) = currentSpell s"
  by (simp add: handleExperienceGain_def renderApp_def Let_def)

lemma manaCost_SPELLS: "sp \<in> set SPELLS \<Longrightarrow> 0 \<le> manaCost sp"
  by (auto simp add: SPELLS_def fireball_def waterwave_def lightning_def)

lemma find_SPELLS: "find P SPELLS = Some sp \<Longrightarrow> sp \<in> set SPELLS"
  by (auto simp add: find_Some_iff)

lemma manaInv_castSpell:
  assumes "manaInv s" "sp \<in> set SPELLS" "castSpell now hand sp s = Inr s'"
  shows "manaInv s'"
  using assms manaCost_SPELLS[of sp]
  by (auto simp add: castSpell_def manaInv_def Let_def split: option.splits if_splits)

lemma manaInv_gestureEffect:
  assumes "manaInv s" "gestureEffect now hand s = Inr s'"
  shows "manaInv s'"
proof (cases hand)
  case None
  with assms show ?thesis by (auto simp add: gestureEffect_def manaInv_def)
next
  case (Some h)
  define s1 where "s1 = (if lastGestureRef s = ''fist'' \<and> gesture h \<noteq> ''fist'' \<and> gesture h \<noteq> ''none'' then
                       (case find (\<lambda>sp. spell_gesture sp = gesture h) SPELLS of
                          None \<Rightarrow> s
                        | Some spell \<Rightarrow>
                            if mana s \<ge> manaCost spell
                            then s\<lparr> currentSpell := Some spell, isCharging := True,
                                    chargeStartTime := now \<rparr>
                            else s)
                     else s)"
  have s1: "manaInv s1"
    using assms(1) by (auto simp add: s1_def manaInv_def split: option.splits dest: find_SPELLS)
  show ?thesis
  proof (cases "if isCharging s \<and> gesture h = ''palm'' then currentSpell s else None")
    case None
    with assms(2) Some have "s' = s1\<lparr> lastGestureRef := gesture h \<rparr>"
      by (simp add: gestureEffect_def Let_def s1_def)
    with s1 show ?thesis by (simp add: manaInv_def)
  next
    case (Some sp)
    then have sp: "currentSpell s = Some sp" by (simp split: if_splits)
    with assms(1) have in_sp: "sp \<in> set SPELLS" by (simp add: manaInv_def)
    from assms(2) \<open>hand = Some h\<close> Some obtain s2 where
      c: "castSpell now hand sp s1 = Inr s2" and
      e: "s' = s2\<lparr> isCharging := False, chargeProgress := 0, lastGestureRef := gesture h \<rparr>"
      by (auto simp add: gestureEffect_def Let_def s1_def[symmetric] split: sum.splits)
    from manaInv_castSpell[OF s1 in_sp c] e show ?thesis by (simp add: manaInv_def)
  qed
qed

lemma hitScarecrow_mana [simp]: "mana (hitScarecrow c p s) = mana s"
  by (simp add: hitScarecrow_def Let_def)

lemma hitScarecrow_currentSpell [simp]: "currentSpell (hitScarecrow c p s) = currentSpell s"
  by (simp add: hitScarecrow_def Let_def)

lemma foldl_hits_mana:
  "mana (foldl (\<lambda>a p. if distToTarget p < 30 then hitScarecrow c p a else a) s ps) = mana s"
  by (induction ps arbitrary: s) auto

lemma foldl_hits_currentSpell:
  "currentSpell (foldl (\<lambda>a p. if distToTarget p < 30 then hitScarecrow c p a else a) s ps)
     = currentSpell s"
  by (induction ps arbitrary: s) auto

lemma manaInv_updateProjectiles: "manaInv s \<Longrightarrow> manaInv (updateProjectiles rnd s)"
  by (simp add: updateProjectiles_def manaInv_def Let_def foldl_hits_mana foldl_hits_currentSpell)

lemma manaInv_step:
  assumes "manaInv s" "step e s = Inr s'"
  shows "manaInv s'"
proof (cases e)
  case (Detection hand now)
  with assms manaInv_gestureEffect [OF manaInv_setHandData [OF assms(1)]]
  show ?thesis by auto
next
  case (AnimationFrame rnd)
  with assms show ?thesis by (auto intro: manaInv_updateProjectiles)
next
  case (ChargeFrame now)
  with assms show ?thesis by (auto simp add: updateCharge_def manaInv_def split: option.splits if_splits)
next
  case ManaInterval
  with assms show ?thesis by (auto simp add: manaRegen_def manaInv_def)
next
  case ComboTimeout
  with assms show ?thesis by (auto simp add: comboTimeout_def manaInv_def split: list.splits)
next
  case RespawnTimeout
  with assms show ?thesis by (auto simp add: respawnTimeout_def manaInv_def split: list.splits)
next
  case Commit
  with assms show ?thesis
    by (auto simp add: respawnEffect_def respawnEffectBody_def manaInv_def Let_def)
qed

lemma manaInv_run: "manaInv s \<Longrightarrow> run es s = Inr s' \<Longrightarrow> manaInv s'"
proof (induction es arbitrary: s)
  case Nil
  then show ?case by simp
next
  case (Cons e es)
  then show ?case by (auto split: sum.splits dest: manaInv_step)
qed

lemma run_ManaInterval: "run (replicate n ManaInterval) s = Inr ((manaRegen ^^ n) s)"
  by (induction n arbitrary: s) (simp_all add: funpow_swap1)

lemma mana_regen_50:  "mana s = 50 \<Longrightarrow> mana ((manaRegen ^^ 5) s) = 60"
  by (simp add: numeral_eq_Suc manaRegen_def)

lemma mana_decrease_is_cast:
  assumes "mana s \<le> 100" "step e s = Inr s'" "mana s' < mana s"
  shows "\<exists>h now sp. e = Detection (Some h) now \<and> isCharging s \<and> gesture h = ''palm'' \<and>
           currentSpell s = Some sp \<and> manaCost sp \<le> mana s \<and> mana s' = mana s - manaCost sp"
proof (cases e)
  case (Detection hand now)
  show ?thesis
  proof (cases hand)
    case None
    with assms Detection show ?thesis by (auto simp add: gestureEffect_def)
  next
    case (Some h)
    with assms Detection show ?thesis
      by (auto simp add: gestureEffect_def castSpell_def Let_def
               split: option.splits if_splits sum.splits)
  qed
next
  case (AnimationFrame rnd)
  with assms show ?thesis by (auto simp add: updateProjectiles_def Let_def foldl_hits_mana split: if_splits)
next
  case (ChargeFrame now)
  with assms show ?thesis by (auto simp add: updateCharge_def split: option.splits if_splits)
next
  case ManaInterval
  with assms show ?thesis by (auto simp add: manaRegen_def)
next
  case ComboTimeout
  with assms show ?thesis by (auto simp add: comboTimeout_def split: list.splits)
next
  case RespawnTimeout
  with assms show ?thesis by (auto simp add: respawnTimeout_def split: list.splits)
next
  case Commit
  with assms show ?thesis
    by (auto simp add: respawnEffect_def respawnEffectBody_def Let_def split: if_splits)
qed


section \<open>Lemmas about the spell catalogue\<close>

lemma find_SPELLS_gesture:
  assumes "find (\<lambda>sp. spell_gesture sp = g) SPELLS = Some sp"
  shows "g = spell_gesture sp" "sp \<in> set SPELLS" "g \<in> {''point'', ''peace'', ''rock''}"
  using assms
  by (auto simp add: SPELLS_def fireball_def waterwave_def lightning_def split: if_splits)

lemma find_SPELLS_point: "find (\<lambda>sp. spell_gesture sp = ''point'') SPELLS = Some fireball"
  by (simp add: SPELLS_def fireball_def)

lemma find_SPELLS_other:
  "g \<notin> {''point'', ''peace'', ''rock''} \<Longrightarrow> find (\<lambda>sp. spell_gesture sp = g) SPELLS = None"
  by (auto simp add: SPELLS_def fireball_def waterwave_def lightning_def)

section \<open>Lemmas about event sequences\<close>

lemma run_step: "step e s = Inr s' \<Longrightarrow> run (e # es) s = run es s'"
  by simp

lemma chargedGame_reached: "run (take 2 castTrace) (initialGame 800 600) = Inr chargedGame"
  by (simp add: castTrace_def chargedGame_def initialGame_def gestureEffect_def sampleHand_def
        SPELLS_def fireball_def setHandData_def renderApp_def Let_def)

lemma run_append:
  "run (xs @ ys) s = (case run xs s of Inl e \<Rightarrow> Inl e | Inr s' \<Rightarrow> run ys s')"
  by (induction xs arbitrary: s) (auto split: sum.splits)

section \<open>Lemmas about the flight of a projectile\<close>

lemma hypot_nonneg: "0 \<le> hypot a b"
  by (simp add: hypot_def)

lemma hypot_scale: "hypot (a * k) (b * k) = \<bar>k\<bar> * hypot a b"
proof -
  have "(a * k)\<^sup>2 + (b * k)\<^sup>2 = k\<^sup>2 * (a\<^sup>2 + b\<^sup>2)"
    by (simp add: power_mult_distrib algebra_simps)
  then show ?thesis
    by (simp add: hypot_def real_sqrt_mult)
qed

lemma hypot_zero_right: "hypot a 0 = \<bar>a\<bar>"
  by (simp add: hypot_def)

lemma distToTarget_nonneg: "0 \<le> distToTarget p"
  by (simp add: distToTarget_def hypot_nonneg)

lemma moveProjectile_fields:
  "targetX (moveProjectile rnd p) = targetX p"
  "targetY (moveProjectile rnd p) = targetY p"
  "speed (moveProjectile rnd p) = speed p"
  "proj_spell (moveProjectile rnd p) = proj_spell p"
  "proj_id (moveProjectile rnd p) = proj_id p"
  by (simp_all add: moveProjectile_def Let_def)

lemma distToTarget_moveProjectile:
  assumes "0 \<le> speed p" "speed p \<le> distToTarget p" "0 < distToTarget p"
  shows "distToTarget (moveProjectile rnd p) = distToTarget p - speed p"
proof -
  define dx where "dx = targetX p - proj_x p"
  define dy where "dy = targetY p - proj_y p"
  define d where "d = hypot dx dy"
  define k where "k = 1 - speed p / d"
  have d: "d = distToTarget p" by (simp add: d_def dx_def dy_def distToTarget_def)
  with assms have dpos: "0 < d" and le: "speed p \<le> d" by simp_all
  then have k: "0 \<le> k" by (simp add: k_def)
  have "targetX p - (proj_x p + dx / d * speed p) = dx - dx / d * speed p"
    by (simp add: dx_def)
  also have "\<dots> = dx * k" by (simp add: k_def right_diff_distrib)
  finally have x: "targetX p - (proj_x p + dx / d * speed p) = dx * k" .
  have "targetY p - (proj_y p + dy / d * speed p) = dy - dy / d * speed p"
    by (simp add: dy_def)
  also have "\<dots> = dy * k" by (simp add: k_def right_diff_distrib)
  finally have y: "targetY p - (proj_y p + dy / d * speed p) = dy * k" .
  have "distToTarget (moveProjectile rnd p) = hypot (dx * k) (dy * k)"
    using x y
    by (simp add: distToTarget_def moveProjectile_def Let_def dx_def[symmetric]
          dy_def[symmetric] d_def[symmetric])
  also have "\<dots> = k * d" using k by (simp add: hypot_scale d_def)
  also have "\<dots> = d - speed p" using dpos by (simp add: k_def left_diff_distrib)
  finally show ?thesis by (simp add: d)
qed

section \<open>Lemmas about animation frames\<close>

lemma handleExperienceGain_fields:
  "scarecrow (handleExperienceGain xp s) = scarecrow s"
  "hitCount (handleExperienceGain xp s) = hitCount s"
  "projectiles (handleExperienceGain xp s) = projectiles s"
  "comboCountRef (handleExperienceGain xp s) = comboCountRef s"
  by (simp_all add: handleExperienceGain_def renderApp_def Let_def)

lemma hitScarecrow_fields:
  "health (scarecrow (hitScarecrow c p s)) = max 0 (health (scarecrow s) - hitDamage c p)"
  "hitCount (hitScarecrow c p s) = hitCount s + 1"
  "projectiles (hitScarecrow c p s) = projectiles s"
  by (simp_all add: hitScarecrow_def hitDamage_def Let_def handleExperienceGain_fields
        mult.commute)

lemma health_foldl_hits:
  "health (scarecrow (foldl (\<lambda>a p. if distToTarget p < 30 then hitScarecrow c p a else a) s ps))
     = foldl (\<lambda>h p. max 0 (h - hitDamage c p)) (health (scarecrow s)) (filter isHit ps)"
  by (induction ps arbitrary: s) (simp_all add: hitScarecrow_fields isHit_def)

lemma health_updateProjectiles:
  "health (scarecrow (updateProjectiles rnd s))
     = foldl (\<lambda>h p. max 0 (h - hitDamage (comboCountRef s) p)) (health (scarecrow s))
         (filter isHit (projectiles s))"
proof (cases "projectiles s = []")
  case True
  then show ?thesis by (simp add: updateProjectiles_def)
next
  case False
  then show ?thesis by (simp add: updateProjectiles_def Let_def health_foldl_hits)
qed

lemma updateProjectiles_single_move:
  assumes "projectiles s = [p]" "30 \<le> distToTarget p"
  shows "updateProjectiles rnd s = s\<lparr> projectiles := [moveProjectile (rnd 0) p] \<rparr>"
  using assms
  by (simp add: updateProjectiles_def Let_def List.map_filter_def enumerate_eq_zip
        stepProjectile_def)

lemma updateProjectiles_single_hit:
  assumes "projectiles s = [p]" "distToTarget p < 30"
  shows "updateProjectiles rnd s = (hitScarecrow (comboCountRef s) p s)\<lparr> projectiles := [] \<rparr>"
  using assms
  by (simp add: updateProjectiles_def Let_def List.map_filter_def enumerate_eq_zip
        stepProjectile_def)

lemma set_map_filter_eq:
  "set (List.map_filter f xs) = {y. \<exists>x \<in> set xs. f x = Some y}"
  by (induction xs) (auto split: option.splits)

lemma set_projectiles_updateProjectiles:
  "set (projectiles (updateProjectiles rnd s)) =
     {moveProjectile (rnd i) (projectiles s ! i) | i.
        i < length (projectiles s) \<and> 30 \<le> distToTarget (projectiles s ! i)}"
proof (cases "projectiles s = []")
  case True
  then show ?thesis by (simp add: updateProjectiles_def)
next
  case False
  let ?ps = "projectiles s"
  let ?f = "\<lambda>(i, p). stepProjectile (rnd i) p"
  from False have eq: "projectiles (updateProjectiles rnd s)
      = List.map_filter ?f (enumerate 0 ?ps)"
    by (simp add: updateProjectiles_def Let_def)
  show ?thesis
  proof (intro set_eqI iffI)
    fix q assume "q \<in> set (projectiles (updateProjectiles rnd s))"
    then obtain i p where "(i, p) \<in> set (enumerate 0 ?ps)" "stepProjectile (rnd i) p = Some q"
      by (auto simp add: eq set_map_filter_eq)
    then show "q \<in> {moveProjectile (rnd i) (?ps ! i) | i.
        i < length ?ps \<and> 30 \<le> distToTarget (?ps ! i)}"
      by (auto simp add: in_set_enumerate_eq stepProjectile_def split: if_splits)
  next
    fix q assume "q \<in> {moveProjectile (rnd i) (?ps ! i) | i.
        i < length ?ps \<and> 30 \<le> distToTarget (?ps ! i)}"
    then obtain i where i: "i < length ?ps" "30 \<le> distToTarget (?ps ! i)"
      "q = moveProjectile (rnd i) (?ps ! i)" by auto
    then have "(i, ?ps ! i) \<in> set (enumerate 0 ?ps)" by (simp add: in_set_enumerate_eq)
    moreover have "?f (i, ?ps ! i) = Some q" using i by (simp add: stepProjectile_def)
    ultimately show "q \<in> set (projectiles (updateProjectiles rnd s))"
      unfolding eq set_map_filter_eq by blast
  qed
qed

lemma distToTarget_fireballAtTarget: "distToTarget fireballAtTarget = 0"
  by (simp add: distToTarget_def fireballAtTarget_def hypot_zero_right)

lemma distToTarget_fireballAt40: "distToTarget fireballAt40 = 40"
  by (simp add: distToTarget_def fireballAt40_def hypot_zero_right)

lemma projectiles_setMana [simp]: "projectiles (setMana v s) = projectiles s"
  by (simp add: setMana_def renderApp_def)

lemma speedInv_castSpell:
  "speedInv s \<Longrightarrow> castSpell now hand sp s = Inr s' \<Longrightarrow> speedInv s'"
  by (auto simp add: castSpell_def speedInv_def Let_def split: option.splits if_splits)

lemma speedInv_gestureEffect:
  assumes "speedInv s" "gestureEffect now hand s = Inr s'"
  shows "speedInv s'"
proof (cases hand)
  case None
  with assms show ?thesis by (auto simp add: gestureEffect_def speedInv_def)
next
  case (Some h)
  define s1 where "s1 = (if lastGestureRef s = ''fist'' \<and> gesture h \<noteq> ''fist'' \<and> gesture h \<noteq> ''none'' then
                       (case find (\<lambda>sp. spell_gesture sp = gesture h) SPELLS of
                          None \<Rightarrow> s
                        | Some spell \<Rightarrow>
                            if mana s \<ge> manaCost spell
                            then s\<lparr> currentSpell := Some spell, isCharging := True,
                                    chargeStartTime := now \<rparr>
                            else s)
                     else s)"
  have s1: "speedInv s1"
    using assms(1) by (auto simp add: s1_def speedInv_def split: option.splits)
  show ?thesis
  proof (cases "if isCharging s \<and> gesture h = ''palm'' then currentSpell s else None")
    case None
    with assms(2) Some have "s' = s1\<lparr> lastGestureRef := gesture h \<rparr>"
      by (simp add: gestureEffect_def Let_def s1_def)
    with s1 show ?thesis by (simp add: speedInv_def)
  next
    case (Some sp)
    from assms(2) \<open>hand = Some h\<close> Some obtain s2 where
      c: "castSpell now hand sp s1 = Inr s2" and
      e: "s' = s2\<lparr> isCharging := False, chargeProgress := 0, lastGestureRef := gesture h \<rparr>"
      by (auto simp add: gestureEffect_def Let_def s1_def[symmetric] split: sum.splits)
    from speedInv_castSpell[OF s1 c] e show ?thesis by (simp add: speedInv_def)
  qed
qed

lemma speedInv_updateProjectiles: "speedInv s \<Longrightarrow> speedInv (updateProjectiles rnd s)"
  unfolding speedInv_def set_projectiles_updateProjectiles
  by (auto simp add: moveProjectile_fields)

lemma speedInv_step:
  assumes "speedInv s" "step e s = Inr s'"
  shows "speedInv s'"
proof (cases e)
  case (Detection hand now)
  from assms(1) have "speedInv (setHandData hand s)" by (simp add: speedInv_def)
  with assms Detection speedInv_gestureEffect show ?thesis by auto
next
  case (AnimationFrame rnd)
  with assms show ?thesis by (auto intro: speedInv_updateProjectiles)
next
  case (ChargeFrame now)
  with assms show ?thesis
    by (auto simp add: updateCharge_def speedInv_def split: option.splits if_splits)
next
  case ManaInterval
  with assms show ?thesis by (auto simp add: manaRegen_def speedInv_def)
next
  case ComboTimeout
  with assms show ?thesis by (auto simp add: comboTimeout_def speedInv_def split: list.splits)
next
  case RespawnTimeout
  with assms show ?thesis
    by (auto simp add: respawnTimeout_def speedInv_def handleExperienceGain_fields
          split: list.splits)
next
  case Commit
  with assms show ?thesis
    by (auto simp add: respawnEffect_def respawnEffectBody_def speedInv_def Let_def
          split: if_splits)
qed

lemma speedInv_run: "speedInv s \<Longrightarrow> run es s = Inr s' \<Longrightarrow> speedInv s'"
proof (induction es arbitrary: s)
  case Nil
  then show ?case by simp
next
  case (Cons e es)
  then show ?case by (auto split: sum.splits dest: speedInv_step)
qed

lemma speedInv_initialGame: "speedInv (initialGame w h)"
  by (simp add: speedInv_def initialGame_def)

lemma frame_defeatGame:
  "updateProjectiles noJitter defeatGame =
     (hitScarecrow 0 fireballAtTarget defeatGame)\<lparr> projectiles := [] \<rparr>"
proof -
  have "projectiles defeatGame = [fireballAtTarget]" "comboCountRef defeatGame = 0"
    by (simp_all add: defeatGame_def initialGame_def)
  then show ?thesis
    using updateProjectiles_single_hit [of defeatGame fireballAtTarget noJitter]
    by (simp add: distToTarget_fireballAtTarget)
qed

section \<open>Lemmas about the callbacks React runs\<close>

lemma keeps_refl: "keeps s s"
  by (auto simp add: keeps_def sameShot_def)

lemma sameShot_trans: "sameShot p q \<Longrightarrow> sameShot q r \<Longrightarrow> sameShot p r"
  by (simp add: sameShot_def)

lemma keeps_trans:
  assumes "keeps s s'" "keeps s' s''"
  shows "keeps s s''"
proof -
  have "\<exists>p \<in> set (projectiles s). sameShot p r" if "r \<in> set (projectiles s'')" for r
  proof -
    from that assms(2) obtain q where q: "q \<in> set (projectiles s')" "sameShot q r"
      unfolding keeps_def by blast
    with assms(1) obtain p where "p \<in> set (projectiles s)" "sameShot p q"
      unfolding keeps_def by blast
    with q show ?thesis by (blast intro: sameShot_trans)
  qed
  with assms show ?thesis unfolding keeps_def by simp
qed

lemma foldl_hits_keep:
  assumes "\<And>p a. f (hitScarecrow c p a) = f a"
  shows "f (foldl (\<lambda>a p. if distToTarget p < 30 then hitScarecrow c p a else a) s ps) = f s"
  by (induction ps arbitrary: s) (simp_all add: assms)

lemma hitScarecrow_keeps:
  "isCharging (hitScarecrow c p s) = isCharging s"
  "chargeStartTime (hitScarecrow c p s) = chargeStartTime s"
  "lastGestureRef (hitScarecrow c p s) = lastGestureRef s"
  "comboCountRef (hitScarecrow c p s) = comboCountRef s"
  "comboTimeouts (hitScarecrow c p s) = comboTimeouts s"
  "target_x (scarecrow (hitScarecrow c p s)) = target_x (scarecrow s)"
  "target_y (scarecrow (hitScarecrow c p s)) = target_y (scarecrow s)"
  "chargeProgress (hitScarecrow c p s) = chargeProgress s"
  "handData (hitScarecrow c p s) = handData s"
  by (simp_all add: hitScarecrow_def handleExperienceGain_def renderApp_def Let_def)

lemma hitCount_foldl_hits:
  "hitCount (foldl (\<lambda>a p. if distToTarget p < 30 then hitScarecrow c p a else a) s ps)
     = hitCount s + int (length (filter isHit ps))"
  by (induction ps arbitrary: s) (simp_all add: hitScarecrow_fields isHit_def)

lemma length_map_filter_step:
  "length (List.map_filter (\<lambda>(i, p). stepProjectile (rnd i) p) (enumerate n ps))
     = length (filter (\<lambda>p. \<not> isHit p) ps)"
  by (induction ps arbitrary: n) (simp_all add: stepProjectile_def isHit_def)

lemma length_filter_split:
  "int (length (filter (\<lambda>p. \<not> P p) ps)) + int (length (filter P ps)) = int (length ps)"
  by (induction ps) simp_all

lemma spawnCount_updateProjectiles: "spawnCount (updateProjectiles rnd s) = spawnCount s"
proof (cases "projectiles s = []")
  case True
  then show ?thesis by (simp add: updateProjectiles_def)
next
  case False
  then show ?thesis
    using length_filter_split [of isHit "projectiles s"]
    by (simp add: updateProjectiles_def Let_def spawnCount_def hitCount_foldl_hits
          length_map_filter_step)
qed

lemma keeps_updateProjectiles: "keeps s (updateProjectiles rnd s)"
proof -
  have shots: "\<forall>q \<in> set (projectiles (updateProjectiles rnd s)).
      \<exists>p \<in> set (projectiles s). sameShot p q"
    by (auto simp add: set_projectiles_updateProjectiles sameShot_def moveProjectile_fields)
  have fields: "mana (updateProjectiles rnd s) = mana s"
    "isCharging (updateProjectiles rnd s) = isCharging s"
    "currentSpell (updateProjectiles rnd s) = currentSpell s"
    "chargeStartTime (updateProjectiles rnd s) = chargeStartTime s"
    "lastGestureRef (updateProjectiles rnd s) = lastGestureRef s"
    "comboCountRef (updateProjectiles rnd s) = comboCountRef s"
    "comboTimeouts (updateProjectiles rnd s) = comboTimeouts s"
    "target_x (scarecrow (updateProjectiles rnd s)) = target_x (scarecrow s)"
    "target_y (scarecrow (updateProjectiles rnd s)) = target_y (scarecrow s)"
    "chargeProgress (updateProjectiles rnd s) = chargeProgress s"
    "handData (updateProjectiles rnd s) = handData s"
    by (simp_all add: updateProjectiles_def Let_def foldl_hits_mana foldl_hits_currentSpell
          foldl_hits_keep [where f = chargeProgress] foldl_hits_keep [where f = handData]
          foldl_hits_keep [where f = isCharging] foldl_hits_keep [where f = chargeStartTime]
          foldl_hits_keep [where f = lastGestureRef] foldl_hits_keep [where f = comboCountRef]
          foldl_hits_keep [where f = comboTimeouts]
          foldl_hits_keep [where f = "\<lambda>a. target_x (scarecrow a)"]
          foldl_hits_keep [where f = "\<lambda>a. target_y (scarecrow a)"] hitScarecrow_keeps)
  show ?thesis
    unfolding keeps_def using shots fields spawnCount_updateProjectiles [of rnd s] by simp
qed

lemma keeps_updateCharge: "keeps s (updateCharge now s)"
  by (auto simp add: updateCharge_def keeps_def spawnCount_def sameShot_def split: option.splits)

lemma keeps_respawnEffect: "keeps s (respawnEffect s)"
  by (auto simp add: respawnEffect_def respawnEffectBody_def keeps_def spawnCount_def
        sameShot_def Let_def)

lemma reactive_step: "reactive e \<Longrightarrow> \<exists>s'. step e s = Inr s' \<and> keeps s s'"
  by (cases e) (simp_all add: keeps_updateProjectiles keeps_updateCharge keeps_respawnEffect)

lemma reactive_run: "list_all reactive es \<Longrightarrow> \<exists>s'. run es s = Inr s' \<and> keeps s s'"
proof (induction es arbitrary: s)
  case Nil
  then show ?case by (simp add: keeps_refl)
next
  case (Cons e es)
  then obtain s1 where s1: "step e s = Inr s1" "keeps s s1"
    using reactive_step [of e s] by auto
  from Cons obtain s' where "run es s1 = Inr s'" "keeps s1 s'" by auto
  with s1 show ?case by (auto intro: keeps_trans)
qed

text \<open>
  After the gesture effect has run on the hand data of a detection cycle, a further
  run on the same hand data finds nothing to do, whatever callbacks ran in between:
  the runs of the effect that a change of \<open>isCharging\<close>, \<open>currentSpell\<close>, \<open>mana\<close> or
  \<open>castSpell\<close> causes leave the state as it is.
\<close>

lemma handData_gestureEffect:
  "gestureEffect now hand s = Inr s1 \<Longrightarrow> handData s1 = handData s"
  by (cases hand)
     (auto simp add: gestureEffect_def castSpell_def setMana_def renderApp_def Let_def
        split: option.splits sum.splits if_splits)

lemma gestureEffect_settles:
  assumes "gestureEffect now hand s = Inr s1"
  shows "case hand of
           None \<Rightarrow> \<not> isCharging s1 \<and> chargeProgress s1 = 0
         | Some h \<Rightarrow> lastGestureRef s1 = gesture h
             \<and> \<not> (isCharging s1 \<and> gesture h = ''palm'' \<and> currentSpell s1 \<noteq> None)"
proof (cases hand)
  case None
  with assms show ?thesis by (auto simp add: gestureEffect_def)
next
  case (Some h)
  have nopalm: "find (\<lambda>sp. spell_gesture sp = ''palm'') SPELLS = None"
    by (rule find_SPELLS_other) simp
  show ?thesis
  proof (cases "gesture h = ''palm''")
    case True
    with assms Some nopalm show ?thesis
      by (auto simp add: gestureEffect_def Let_def split: option.splits sum.splits if_splits)
  next
    case False
    with assms Some show ?thesis
      by (auto simp add: gestureEffect_def Let_def split: option.splits if_splits)
  qed
qed

lemma settled_detection:
  assumes "step (Detection hand now) s = Inr s1"
  shows "settled s1"
proof -
  from assms have g: "gestureEffect now hand (setHandData hand s) = Inr s1" by simp
  have "handData (setHandData hand s) = hand"
    by (auto simp add: setHandData_def renderApp_def)
  with handData_gestureEffect [OF g] have "handData s1 = hand" by simp
  with gestureEffect_settles [OF g] show ?thesis by (simp add: settled_def)
qed

lemma settled_keeps: "settled s \<Longrightarrow> keeps s s' \<Longrightarrow> settled s'"
  by (auto simp add: settled_def keeps_def split: option.splits)

lemma settled_cong:
  assumes "handData s' = handData s" "isCharging s' = isCharging s"
    "chargeProgress s' = chargeProgress s" "lastGestureRef s' = lastGestureRef s"
    "currentSpell s' = currentSpell s" "settled s"
  shows "settled s'"
  using assms unfolding settled_def by (simp split: option.splits)

lemma settled_step: "settled s \<Longrightarrow> step e s = Inr s' \<Longrightarrow> settled s'"
proof (cases e)
  case (Detection hand now)
  assume "step e s = Inr s'"
  with Detection show ?thesis by (simp only: settled_detection)
next
  case (AnimationFrame rnd)
  assume "settled s" "step e s = Inr s'"
  with AnimationFrame settled_keeps [OF _ keeps_updateProjectiles] show ?thesis by auto
next
  case (ChargeFrame now)
  assume "settled s" "step e s = Inr s'"
  with ChargeFrame settled_keeps [OF _ keeps_updateCharge] show ?thesis by auto
next
  case ManaInterval
  assume a: "settled s" "step e s = Inr s'"
  have "settled (manaRegen s)"
    by (rule settled_cong [OF _ _ _ _ _ a(1)])
       (simp_all add: manaRegen_def setMana_def renderApp_def)
  with a ManaInterval show ?thesis by simp
next
  case ComboTimeout
  assume a: "settled s" "step e s = Inr s'"
  have "settled (comboTimeout s)"
    by (rule settled_cong [OF _ _ _ _ _ a(1)])
       (simp_all add: comboTimeout_def split: list.splits)
  with a ComboTimeout show ?thesis by simp
next
  case RespawnTimeout
  assume a: "settled s" "step e s = Inr s'"
  have "settled (respawnTimeout s)"
    by (rule settled_cong [OF _ _ _ _ _ a(1)])
       (simp_all add: respawnTimeout_def handleExperienceGain_def renderApp_def Let_def
          split: list.splits)
  with a RespawnTimeout show ?thesis by simp
next
  case Commit
  assume "settled s" "step e s = Inr s'"
  with Commit settled_keeps [OF _ keeps_respawnEffect] show ?thesis by auto
qed

lemma settled_run: "settled s \<Longrightarrow> run es s = Inr s' \<Longrightarrow> settled s'"
proof (induction es arbitrary: s)
  case Nil
  then show ?case by simp
next
  case (Cons e es)
  then show ?case by (cases "step e s") (auto intro: settled_step)
qed

lemma settled_initialGame: "settled (initialGame w h)"
  by (simp add: settled_def initialGame_def)

lemma gestureEffect_settled: "settled s \<Longrightarrow> gestureEffect now (handData s) s = Inr s"
  by (cases "handData s") (auto simp add: settled_def gestureEffect_def Let_def)

lemma gestureEffect_rerun:
  "run es (initialGame w h) = Inr s \<Longrightarrow> gestureEffect now (handData s) s = Inr s"
  by (rule gestureEffect_settled) (rule settled_run [OF settled_initialGame])

lemma setHandData_more [simp]:
  "hitCount (setHandData hand s) = hitCount s"
  "comboTimeouts (setHandData hand s) = comboTimeouts s"
  "spawnCount (setHandData hand s) = spawnCount s"
  by (simp_all add: setHandData_def renderApp_def spawnCount_def)

lemma setMana_more [simp]:
  "hitCount (setMana v s) = hitCount s"
  "comboTimeouts (setMana v s) = comboTimeouts s"
  by (simp_all add: setMana_def renderApp_def)

lemma detection_fist:
  assumes "gesture h = ''fist''"
  shows "step (Detection (Some h) t) s
           = Inr ((setHandData (Some h) s)\<lparr> lastGestureRef := ''fist'' \<rparr>)"
  using assms by (simp add: gestureEffect_def Let_def)

lemma detection_point:
  assumes "gesture h = ''point''" "lastGestureRef s = ''fist''" "manaCost fireball \<le> mana s"
  shows "step (Detection (Some h) t) s
           = Inr ((setHandData (Some h) s)\<lparr> currentSpell := Some fireball, isCharging := True,
                    chargeStartTime := t, lastGestureRef := ''point'' \<rparr>)"
  using assms by (simp add: gestureEffect_def Let_def find_SPELLS_point)

lemma detection_palm:
  assumes "gesture h = ''palm''" "isCharging s" "currentSpell s = Some sp"
    and "manaCost sp \<le> mana s" "js_index (keypoints h) 8 = Some tip"
  shows "step (Detection (Some h) t) s
           = Inr ((setMana (mana s - manaCost sp) (setHandData (Some h) s))
                    \<lparr> projectiles := projectiles s @
                         [\<lparr> proj_id = t, proj_spell = sp, proj_x = kp_x tip, proj_y = kp_y tip,
                            targetX = target_x (scarecrow s), targetY = target_y (scarecrow s),
                            speed = 15, particles = [] \<rparr>],
                       comboCountRef := comboCountRef s + 1,
                       comboCount := comboCountRef s + 1,
                       comboTimeouts := comboTimeouts s @ [5000],
                       currentSpell := None,
                       isCharging := False, chargeProgress := 0,
                       lastGestureRef := ''palm'' \<rparr>)"
proof -
  have "find (\<lambda>sp. spell_gesture sp = ''palm'') SPELLS = None"
    by (rule find_SPELLS_other) simp
  with assms show ?thesis
    by (simp add: gestureEffect_def castSpell_def Let_def)
qed

text \<open>The trace of the three cycles as React runs them: the fireball is spawned once
  and has been moved by two frames when the palm cycle is over.\<close>

lemma release_trace_eval:
  "map_sum id (\<lambda>s. (mana s, hitCount s,
       map (\<lambda>p. (proj_id p, proj_x p, proj_y p, length (particles p))) (projectiles s)))
     (run releaseTrace (initialGame 800 600))
   = Inr (85, 0, [(1200, 130, 300, 6)])"
  by (simp add: releaseTrace_def initialGame_def gestureEffect_def castSpell_def sampleHand_def
        SPELLS_def fireball_def js_index_def setMana_def
        setHandData_def renderApp_def Let_def respawnEffect_def respawnEffectBody_def
        updateProjectiles_def updateCharge_def stepProjectile_def distToTarget_def hypot_zero_right
        moveProjectile_def newParticles_def noJitter_def upt_rec)







section \<open>Lemmas about the target\<close>

text \<open>
  The target's health never becomes negative, and the respawn effect registers at
  most one timeout per change of the health as long as the callback it depends on
  keeps its identity.
\<close>

lemma health_foldl_hits_nonneg:
  "0 \<le> h \<Longrightarrow> 0 \<le> foldl (\<lambda>h p. max 0 (h - hitDamage c p)) h ps"
  by (induction ps arbitrary: h) simp_all

lemma health_nonneg_updateProjectiles:
  "0 \<le> health (scarecrow s) \<Longrightarrow> 0 \<le> health (scarecrow (updateProjectiles rnd s))"
  by (simp add: health_updateProjectiles health_foldl_hits_nonneg)

lemma scarecrow_setMana [simp]: "scarecrow (setMana v s) = scarecrow s"
  by (simp add: setMana_def renderApp_def)

lemma scarecrow_gestureEffect:
  "gestureEffect now hand s = Inr s' \<Longrightarrow> scarecrow s' = scarecrow s"
  by (auto simp add: gestureEffect_def castSpell_def Let_def
        split: option.splits if_splits sum.splits)

lemma health_nonneg_step:
  assumes "0 \<le> health (scarecrow s)" "step e s = Inr s'"
  shows "0 \<le> health (scarecrow s')"
proof (cases e)
  case (Detection hand now)
  with assms show ?thesis by (auto dest: scarecrow_gestureEffect)
next
  case (AnimationFrame rnd)
  with assms show ?thesis by (auto intro: health_nonneg_updateProjectiles)
next
  case (ChargeFrame now)
  with assms show ?thesis by (auto simp add: updateCharge_def split: option.splits if_splits)
next
  case ManaInterval
  with assms show ?thesis by (auto simp add: manaRegen_def)
next
  case ComboTimeout
  with assms show ?thesis by (auto simp add: comboTimeout_def split: list.splits)
next
  case RespawnTimeout
  with assms show ?thesis
    by (auto simp add: respawnTimeout_def handleExperienceGain_fields split: list.splits)
next
  case Commit
  with assms show ?thesis
    by (auto simp add: respawnEffect_def respawnEffectBody_def Let_def split: if_splits)
qed

lemma health_nonneg_run:
  "0 \<le> health (scarecrow s) \<Longrightarrow> run es s = Inr s' \<Longrightarrow> 0 \<le> health (scarecrow s')"
proof (induction es arbitrary: s)
  case Nil
  then show ?case by simp
next
  case (Cons e es)
  then show ?case by (auto split: sum.splits dest: health_nonneg_step)
qed

lemma respawnEffect_idem: "respawnEffect (respawnEffect s) = respawnEffect s"
  by (simp add: respawnEffect_def respawnEffectBody_def Let_def)

lemma respawnEffect_stable_callback:
  assumes "respawnDeps s = Some (h, onExperienceGainId s)"
  shows "length (respawnTimeouts (respawnEffect s))
           \<le> length (respawnTimeouts s) + (if health (scarecrow s) \<noteq> h then 1 else 0)"
  using assms by (simp add: respawnEffect_def respawnEffectBody_def Let_def)

section \<open>Properties\<close>

subsection \<open>Mana regeneration and bounds\<close>

text \<open>
  C9.  The tick of the mana interval (every 1000 ms) sets mana to \<open>min 100 (mana + 2)\<close>.
  From a state whose mana is within 0 and 100, mana stays within 0 and 100 whatever
  events follow, and the only event that lowers mana is a detection cycle that
  releases the charged spell with \<open>mana \<ge> manaCost\<close>, which lowers it by exactly
  the cost.  Starting at 50, five ticks (5000 ms) without a cast give exactly 60.
\<close>

theorem mana_regeneration_and_bounds:
  "mana (manaRegen s) = min 100 (mana s + 2)
   \<and> (manaInv s \<longrightarrow>
        (\<forall>es s'. run es s = Inr s' \<longrightarrow> 0 \<le> mana s' \<and> mana s' \<le> 100)
      \<and> (\<forall>e s'. step e s = Inr s' \<and> mana s' < mana s \<longrightarrow>
            (\<exists>h now sp. e = Detection (Some h) now \<and> isCharging s \<and> gesture h = ''palm'' \<and>
               currentSpell s = Some sp \<and> manaCost sp \<le> mana s \<and>
               mana s' = mana s - manaCost sp)))
   \<and> (mana s = 50 \<longrightarrow>
        (\<exists>s'. run (replicate 5 ManaInterval) s = Inr s' \<and> mana s' = 60))"
proof (intro conjI impI allI)
  show "mana (manaRegen s) = min 100 (mana s + 2)" by (simp add: manaRegen_def)
next
  fix es s' assume "manaInv s" "run es s = Inr s'"
  then have "manaInv s'" by (rule manaInv_run)
  then show "0 \<le> mana s'" "mana s' \<le> 100" by (simp_all add: manaInv_def)
next
  fix e s' assume "manaInv s" "step e s = Inr s' \<and> mana s' < mana s"
  then show "\<exists>h now sp. e = Detection (Some h) now \<and> isCharging s \<and> gesture h = ''palm'' \<and>
               currentSpell s = Some sp \<and> manaCost sp \<le> mana s \<and>
               mana s' = mana s - manaCost sp"
    using mana_decrease_is_cast[of s e s'] by (simp add: manaInv_def)
next
  assume "mana s = 50"
  then show "\<exists>s'. run (replicate 5 ManaInterval) s = Inr s' \<and> mana s' = 60"
    by (simp add: run_ManaInterval mana_regen_50)
qed

theorem mana_regeneration_and_bounds_witness:
  "manaInv (initialGame 800 600)
   \<and> (\<exists>s'. run castTrace (initialGame 800 600) = Inr s' \<and> mana s' = 85
          \<and> 0 \<le> mana s' \<and> mana s' \<le> 100)
   \<and> (\<exists>s'. step (Detection (Some (sampleHand 100 200 ''palm'')) 1200) chargedGame = Inr s'
          \<and> mana s' < mana chargedGame
          \<and> (\<exists>sp. currentSpell chargedGame = Some sp \<and> mana s' = mana chargedGame - manaCost sp))
   \<and> (\<exists>s'. run (replicate 5 ManaInterval) ((initialGame 800 600)\<lparr> mana := 50 \<rparr>) = Inr s'
          \<and> mana s' = 60)"
proof -
  have inv: "manaInv (initialGame 800 600)"
    by (simp add: manaInv_def initialGame_def)
  obtain s' where r: "run castTrace (initialGame 800 600) = Inr s'" and m: "mana s' = 85"
    by (simp add: castTrace_def initialGame_def gestureEffect_def castSpell_def sampleHand_def
          SPELLS_def fireball_def waterwave_def lightning_def js_index_def setMana_def
          setHandData_def renderApp_def Let_def)
  have a: "0 \<le> mana s' \<and> mana s' \<le> 100"
    using mana_regeneration_and_bounds [of "initialGame 800 600"] inv r by blast
  have inv2: "manaInv chargedGame"
    by (simp add: manaInv_def chargedGame_def initialGame_def SPELLS_def)
  obtain t where st: "step (Detection (Some (sampleHand 100 200 ''palm'')) 1200) chargedGame = Inr t"
    and lt: "mana t < mana chargedGame"
    by (simp add: chargedGame_def initialGame_def gestureEffect_def castSpell_def sampleHand_def
          SPELLS_def fireball_def waterwave_def lightning_def js_index_def setMana_def
          setHandData_def renderApp_def Let_def)
  have b: "\<exists>sp. currentSpell chargedGame = Some sp \<and> mana t = mana chargedGame - manaCost sp"
    using mana_regeneration_and_bounds [of chargedGame] inv2 st lt by blast
  have c: "\<exists>s'. run (replicate 5 ManaInterval) ((initialGame 800 600)\<lparr> mana := 50 \<rparr>) = Inr s'
          \<and> mana s' = 60"
    using mana_regeneration_and_bounds [of "(initialGame 800 600)\<lparr> mana := 50 \<rparr>"] by simp
  from inv r m a st lt b c show ?thesis by blast
qed

subsection \<open>Charging with insufficient mana\<close>

text \<open>
  C8.  When the previous gesture was fist and the current gesture selects a spell
  whose mana cost exceeds the current mana, the gesture effect starts no charge: the
  resulting state is the state before except that the remembered last gesture is the
  current one.  The cast state machine is where it was (Idle stays Idle), and mana,
  the selected spell and the charging flag are unchanged.
\<close>

theorem charge_rejected_when_mana_short:
  assumes "lastGestureRef s = ''fist''"
    and "find (\<lambda>sp. spell_gesture sp = gesture h) SPELLS = Some sp"
    and "mana s < manaCost sp"
  shows "\<exists>s'. gestureEffect now (Some h) s = Inr s' \<and> s' = s\<lparr> lastGestureRef := gesture h \<rparr>
           \<and> castStateOf s' = castStateOf s \<and> mana s' = mana s
           \<and> currentSpell s' = currentSpell s \<and> isCharging s' = isCharging s"
proof -
  from assms(2) have g: "gesture h \<in> {''point'', ''peace'', ''rock''}"
    by (rule find_SPELLS_gesture)
  then have "gesture h \<noteq> ''palm''" by auto
  with assms have "gestureEffect now (Some h) s = Inr (s\<lparr> lastGestureRef := gesture h \<rparr>)"
    by (simp add: gestureEffect_def Let_def)
  then show ?thesis by (simp add: castStateOf_def split: option.splits)
qed

theorem charge_rejected_when_mana_short_witness:
  "lastGestureRef ((initialGame 800 600)\<lparr> mana := 10, lastGestureRef := ''fist'' \<rparr>) = ''fist''
   \<and> find (\<lambda>sp. spell_gesture sp = gesture (sampleHand 100 200 ''point'')) SPELLS = Some fireball
   \<and> mana ((initialGame 800 600)\<lparr> mana := 10, lastGestureRef := ''fist'' \<rparr>) < manaCost fireball
   \<and> castStateOf ((initialGame 800 600)\<lparr> mana := 10, lastGestureRef := ''fist'' \<rparr>) = Idle
   \<and> gestureEffect 1100 (Some (sampleHand 100 200 ''point''))
        ((initialGame 800 600)\<lparr> mana := 10, lastGestureRef := ''fist'' \<rparr>)
      = Inr ((initialGame 800 600)\<lparr> mana := 10, lastGestureRef := ''point'' \<rparr>)"
proof -
  let ?s = "(initialGame 800 600)\<lparr> mana := 10, lastGestureRef := ''fist'' \<rparr>"
  let ?h = "sampleHand 100 200 ''point''"
  have a: "lastGestureRef ?s = ''fist''" by simp
  have b: "find (\<lambda>sp. spell_gesture sp = gesture ?h) SPELLS = Some fireball"
    by (simp add: sampleHand_def SPELLS_def fireball_def)
  have c: "mana ?s < manaCost fireball" by (simp add: fireball_def)
  have d: "castStateOf ?s = Idle" by (simp add: castStateOf_def initialGame_def)
  from charge_rejected_when_mana_short [OF a b c, of 1100]
  have "gestureEffect 1100 (Some ?h) ?s = Inr (?s\<lparr> lastGestureRef := gesture ?h \<rparr>)" by blast
  then have "gestureEffect 1100 (Some ?h) ?s = Inr ((initialGame 800 600)\<lparr> mana := 10, lastGestureRef := ''point'' \<rparr>)"
    by (simp add: sampleHand_def)
  with a b c d show ?thesis by blast
qed

subsection \<open>Release with a failing recheck\<close>

text \<open>
  C10.  \<open>castSpell\<close> returns without any effect when the hand data is absent or mana
  is below the spell's cost.  When palm is shown while charging and mana is below
  the cost, the gesture effect leaves mana, the projectile list and the combo
  counter unchanged, and still clears the charging flag and the charge progress:
  the machine is back at Idle and no cast was emitted.
\<close>

theorem failed_release_consumes_session:
  "(hand = None \<or> mana s < manaCost sp \<longrightarrow> castSpell now hand sp s = Inr s)
   \<and> (isCharging s \<and> currentSpell s = Some sp \<and> gesture h = ''palm'' \<and> mana s < manaCost sp \<longrightarrow>
        (\<exists>s'. gestureEffect now (Some h) s = Inr s'
           \<and> s' = s\<lparr> isCharging := False, chargeProgress := 0, lastGestureRef := ''palm'' \<rparr>
           \<and> mana s' = mana s \<and> projectiles s' = projectiles s
           \<and> comboCountRef s' = comboCountRef s \<and> comboCount s' = comboCount s
           \<and> castStateOf s = Charging sp (chargeStartTime s) \<and> castStateOf s' = Idle
           \<and> chargeProgress s' = 0))"
proof (intro conjI impI)
  assume "hand = None \<or> mana s < manaCost sp"
  then show "castSpell now hand sp s = Inr s"
    by (auto simp add: castSpell_def split: option.splits)
next
  assume a: "isCharging s \<and> currentSpell s = Some sp \<and> gesture h = ''palm'' \<and> mana s < manaCost sp"
  have "find (\<lambda>sp. spell_gesture sp = ''palm'') SPELLS = None"
    by (rule find_SPELLS_other) simp
  with a have "gestureEffect now (Some h) s
      = Inr (s\<lparr> isCharging := False, chargeProgress := 0, lastGestureRef := ''palm'' \<rparr>)"
    by (simp add: gestureEffect_def castSpell_def Let_def)
  with a show "\<exists>s'. gestureEffect now (Some h) s = Inr s'
           \<and> s' = s\<lparr> isCharging := False, chargeProgress := 0, lastGestureRef := ''palm'' \<rparr>
           \<and> mana s' = mana s \<and> projectiles s' = projectiles s
           \<and> comboCountRef s' = comboCountRef s \<and> comboCount s' = comboCount s
           \<and> castStateOf s = Charging sp (chargeStartTime s) \<and> castStateOf s' = Idle
           \<and> chargeProgress s' = 0"
    by (simp add: castStateOf_def)
qed

theorem failed_release_consumes_session_witness:
  "isCharging (chargedGame\<lparr> mana := 10 \<rparr>)
   \<and> currentSpell (chargedGame\<lparr> mana := 10 \<rparr>) = Some fireball
   \<and> gesture (sampleHand 100 200 ''palm'') = ''palm''
   \<and> mana (chargedGame\<lparr> mana := 10 \<rparr>) < manaCost fireball
   \<and> castSpell 1200 (Some (sampleHand 100 200 ''palm'')) fireball (chargedGame\<lparr> mana := 10 \<rparr>)
       = Inr (chargedGame\<lparr> mana := 10 \<rparr>)
   \<and> castSpell 1200 None fireball chargedGame = Inr chargedGame
   \<and> gestureEffect 1200 (Some (sampleHand 100 200 ''palm'')) (chargedGame\<lparr> mana := 10 \<rparr>)
       = Inr (chargedGame\<lparr> mana := 10, isCharging := False, chargeProgress := 0,
                lastGestureRef := ''palm'' \<rparr>)"
proof -
  let ?s = "chargedGame\<lparr> mana := 10 \<rparr>"
  let ?h = "sampleHand 100 200 ''palm''"
  have a: "isCharging ?s" "currentSpell ?s = Some fireball" "gesture ?h = ''palm''"
    "mana ?s < manaCost fireball"
    by (simp_all add: chargedGame_def sampleHand_def fireball_def)
  from failed_release_consumes_session [of "Some ?h" ?s fireball 1200 ?h] a
  have b: "castSpell 1200 (Some ?h) fireball ?s = Inr ?s"
    and c: "gestureEffect 1200 (Some ?h) ?s
       = Inr (?s\<lparr> isCharging := False, chargeProgress := 0, lastGestureRef := ''palm'' \<rparr>)"
    by blast+
  from failed_release_consumes_session [of None chargedGame fireball 1200 ?h]
  have d: "castSpell 1200 None fireball chargedGame = Inr chargedGame" by blast
  from a b c d show ?thesis by simp
qed

subsection \<open>Loss of the hand\<close>

text \<open>
  C2 (as stated, refuted).  The claim that the machine keeps its state when the hand
  data becomes unavailable fails for a charging machine: from the state charging the
  fireball, the gesture effect run without hand data leaves the machine at Idle.
\<close>

theorem lost_input_keeps_state_counterexample:
  "castStateOf chargedGame = Charging fireball 1100
   \<and> gestureEffect 1200 None chargedGame
       = Inr (chargedGame\<lparr> isCharging := False, chargeProgress := 0 \<rparr>)
   \<and> castStateOf (chargedGame\<lparr> isCharging := False, chargeProgress := 0 \<rparr>) = Idle
   \<and> gestureEffect 1200 None chargedGame \<noteq> Inr chargedGame"
  by (simp add: gestureEffect_def castStateOf_def chargedGame_def initialGame_def)

text \<open>
  C2 (amended).  Without hand data the gesture effect clears the charging flag and
  the charge progress and changes nothing else: the selected spell, the remembered
  last gesture, mana, the projectiles and the combo counter are as before.  The
  machine is at Idle afterwards, and the charging session is over: a palm shown when
  the hand is back releases nothing.
\<close>

theorem lost_input_ends_charging:
  "gestureEffect now None s = Inr (s\<lparr> isCharging := False, chargeProgress := 0 \<rparr>)
   \<and> castStateOf (s\<lparr> isCharging := False, chargeProgress := 0 \<rparr>) = Idle
   \<and> (gesture h = ''palm'' \<longrightarrow>
        gestureEffect now' (Some h) (s\<lparr> isCharging := False, chargeProgress := 0 \<rparr>)
          = Inr (s\<lparr> isCharging := False, chargeProgress := 0, lastGestureRef := ''palm'' \<rparr>))"
proof -
  have "find (\<lambda>sp. spell_gesture sp = ''palm'') SPELLS = None"
    by (rule find_SPELLS_other) simp
  then show ?thesis
    by (simp add: gestureEffect_def castStateOf_def Let_def)
qed

theorem lost_input_ends_charging_witness:
  "gesture (sampleHand 100 200 ''palm'') = ''palm''
   \<and> gestureEffect 1200 None chargedGame
        = Inr (chargedGame\<lparr> isCharging := False, chargeProgress := 0 \<rparr>)
   \<and> gestureEffect 1300 (Some (sampleHand 100 200 ''palm''))
        (chargedGame\<lparr> isCharging := False, chargeProgress := 0 \<rparr>)
        = Inr (chargedGame\<lparr> isCharging := False, chargeProgress := 0, lastGestureRef := ''palm'' \<rparr>)"
proof -
  have g: "gesture (sampleHand 100 200 ''palm'') = ''palm''" by (simp add: sampleHand_def)
  from lost_input_ends_charging [of 1200 chargedGame "sampleHand 100 200 ''palm''" 1300] g
  show ?thesis by blast
qed

subsection \<open>Charge and release of the fireball\<close>

text \<open>
  C1.  From an Idle state with mana at least the fireball's cost, the detection
  cycles fist, point bring the machine to charging the fireball (at the time of the
  second cycle) without touching mana, the combo counter or the number of
  projectiles spawned.  The following cycle with palm (and a hand with an index
  finger tip) returns the machine to Idle, lowers mana by exactly the fireball's
  cost, 15, raises the combo counter by one with one decay timeout registered, and
  spawns exactly one projectile: the number of projectiles spawned is one higher, and
  every projectile in flight afterwards is one that was in flight before or the
  fireball cast in this cycle, aimed at the target.  All this holds whatever frames,
  charge frames and commits React runs after each of the three cycles.  A further
  run of the gesture effect on the same hand data changes nothing, so the release
  is emitted once.
\<close>

theorem fist_point_palm_casts_fireball:
  assumes idle: "castStateOf s = Idle"
    and m: "manaCost fireball \<le> mana s"
    and g: "gesture h1 = ''fist''" "gesture h2 = ''point''" "gesture h3 = ''palm''"
    and tip: "js_index (keypoints h3) 8 = Some tip"
    and fs: "list_all reactive fs1" "list_all reactive fs2" "list_all reactive fs3"
  shows "\<exists>s2 s3.
      run (Detection (Some h1) t1 # fs1 @ Detection (Some h2) t2 # fs2) s = Inr s2
    \<and> castStateOf s2 = Charging fireball t2
    \<and> mana s2 = mana s \<and> spawnCount s2 = spawnCount s
    \<and> comboCountRef s2 = comboCountRef s
    \<and> run (Detection (Some h3) t3 # fs3) s2 = Inr s3
    \<and> castStateOf s3 = Idle
    \<and> spawnCount s3 = spawnCount s + 1
    \<and> (\<forall>q \<in> set (projectiles s3).
          (\<exists>p \<in> set (projectiles s). sameShot p q)
        \<or> sameShot \<lparr> proj_id = t3, proj_spell = fireball, proj_x = kp_x tip, proj_y = kp_y tip,
              targetX = target_x (scarecrow s), targetY = target_y (scarecrow s),
              speed = 15, particles = [] \<rparr> q)
    \<and> mana s3 = mana s - manaCost fireball \<and> manaCost fireball = 15
    \<and> comboCountRef s3 = comboCountRef s + 1
    \<and> comboTimeouts s3 = comboTimeouts s @ [5000]
    \<and> gestureEffect t4 (Some h3) s3 = Inr s3"
proof -
  let ?spawn = "\<lparr> proj_id = t3, proj_spell = fireball, proj_x = kp_x tip, proj_y = kp_y tip,
              targetX = target_x (scarecrow s), targetY = target_y (scarecrow s),
              speed = 15, particles = [] \<rparr>"
  \<comment> \<open>fist\<close>
  define a1 where "a1 = (setHandData (Some h1) s)\<lparr> lastGestureRef := ''fist'' \<rparr>"
  have e1: "step (Detection (Some h1) t1) s = Inr a1"
    unfolding a1_def by (rule detection_fist [OF g(1)])
  obtain b1 where r1: "run fs1 a1 = Inr b1" and k1: "keeps a1 b1"
    using reactive_run [OF fs(1)] by blast
  have fa1: "mana a1 = mana s" "lastGestureRef a1 = ''fist''" "spawnCount a1 = spawnCount s"
    "comboCountRef a1 = comboCountRef s" "comboTimeouts a1 = comboTimeouts s"
    "scarecrow a1 = scarecrow s" "projectiles a1 = projectiles s"
    by (simp_all add: a1_def spawnCount_def)
  from k1 fa1 have fb1: "mana b1 = mana s" "lastGestureRef b1 = ''fist''"
    "spawnCount b1 = spawnCount s" "comboCountRef b1 = comboCountRef s"
    "comboTimeouts b1 = comboTimeouts s"
    "target_x (scarecrow b1) = target_x (scarecrow s)"
    "target_y (scarecrow b1) = target_y (scarecrow s)"
    "\<forall>q \<in> set (projectiles b1). \<exists>p \<in> set (projectiles s). sameShot p q"
    by (simp_all add: keeps_def)
  \<comment> \<open>point\<close>
  define a2 where "a2 = (setHandData (Some h2) b1)\<lparr> currentSpell := Some fireball,
     isCharging := True, chargeStartTime := t2, lastGestureRef := ''point'' \<rparr>"
  have e2: "step (Detection (Some h2) t2) b1 = Inr a2"
    unfolding a2_def using g(2) fb1(2) m fb1(1) by (intro detection_point) simp_all
  obtain s2 where r2: "run fs2 a2 = Inr s2" and k2: "keeps a2 s2"
    using reactive_run [OF fs(2)] by blast
  have fa2: "mana a2 = mana s" "isCharging a2" "currentSpell a2 = Some fireball"
    "chargeStartTime a2 = t2" "spawnCount a2 = spawnCount s"
    "comboCountRef a2 = comboCountRef s" "comboTimeouts a2 = comboTimeouts s"
    "scarecrow a2 = scarecrow b1" "projectiles a2 = projectiles b1"
    using fb1 by (simp_all add: a2_def spawnCount_def)
  from k2 fa2 fb1 have f2: "mana s2 = mana s" "isCharging s2" "currentSpell s2 = Some fireball"
    "chargeStartTime s2 = t2" "spawnCount s2 = spawnCount s"
    "comboCountRef s2 = comboCountRef s" "comboTimeouts s2 = comboTimeouts s"
    "target_x (scarecrow s2) = target_x (scarecrow s)"
    "target_y (scarecrow s2) = target_y (scarecrow s)"
    by (simp_all add: keeps_def)
  have sh2: "\<exists>p \<in> set (projectiles s). sameShot p q" if "q \<in> set (projectiles s2)" for q
  proof -
    from that k2 fa2 obtain p' where "p' \<in> set (projectiles b1)" "sameShot p' q"
      unfolding keeps_def by auto
    with fb1(8) show ?thesis by (blast intro: sameShot_trans)
  qed
  have run2: "run (Detection (Some h1) t1 # fs1 @ Detection (Some h2) t2 # fs2) s = Inr s2"
    by (simp only: run_step [OF e1] run_append r1 sum.case run_step [OF e2] r2)
  have c2: "castStateOf s2 = Charging fireball t2" by (simp add: castStateOf_def f2)
  \<comment> \<open>palm\<close>
  define a3 where "a3 = (setMana (mana s2 - manaCost fireball) (setHandData (Some h3) s2))
                    \<lparr> projectiles := projectiles s2 @
                         [\<lparr> proj_id = t3, proj_spell = fireball, proj_x = kp_x tip,
                            proj_y = kp_y tip,
                            targetX = target_x (scarecrow s2), targetY = target_y (scarecrow s2),
                            speed = 15, particles = [] \<rparr>],
                       comboCountRef := comboCountRef s2 + 1,
                       comboCount := comboCountRef s2 + 1,
                       comboTimeouts := comboTimeouts s2 @ [5000],
                       currentSpell := None,
                       isCharging := False, chargeProgress := 0,
                       lastGestureRef := ''palm'' \<rparr>"
  have e3: "step (Detection (Some h3) t3) s2 = Inr a3"
    unfolding a3_def using g(3) f2(2,3) m f2(1) tip by (intro detection_palm) simp_all
  obtain s3 where r3: "run fs3 a3 = Inr s3" and k3: "keeps a3 s3"
    using reactive_run [OF fs(3)] by blast
  have fa3: "mana a3 = mana s - manaCost fireball" "\<not> isCharging a3"
    "lastGestureRef a3 = ''palm''" "spawnCount a3 = spawnCount s + 1"
    "comboCountRef a3 = comboCountRef s + 1" "comboTimeouts a3 = comboTimeouts s @ [5000]"
    "projectiles a3 = projectiles s2 @ [?spawn]"
    using f2 by (simp_all add: a3_def spawnCount_def)
  from k3 fa3 have f3: "mana s3 = mana s - manaCost fireball" "\<not> isCharging s3"
    "lastGestureRef s3 = ''palm''" "spawnCount s3 = spawnCount s + 1"
    "comboCountRef s3 = comboCountRef s + 1" "comboTimeouts s3 = comboTimeouts s @ [5000]"
    by (simp_all add: keeps_def)
  have sh3: "(\<exists>p \<in> set (projectiles s). sameShot p q) \<or> sameShot ?spawn q"
    if "q \<in> set (projectiles s3)" for q
  proof -
    from that k3 obtain p' where p': "p' \<in> set (projectiles a3)" "sameShot p' q"
      unfolding keeps_def by blast
    from p'(1) fa3(7) consider "p' \<in> set (projectiles s2)" | "p' = ?spawn" by auto
    then show ?thesis
    proof cases
      case 1
      with sh2 p'(2) show ?thesis by (blast intro: sameShot_trans)
    next
      case 2
      with p'(2) show ?thesis by simp
    qed
  qed
  have run3: "run (Detection (Some h3) t3 # fs3) s2 = Inr s3"
    by (simp only: run_step [OF e3] r3)
  have nopalm: "find (\<lambda>sp. spell_gesture sp = ''palm'') SPELLS = None"
    by (rule find_SPELLS_other) simp
  have again: "gestureEffect t4 (Some h3) s3 = Inr s3"
    using g(3) f3(2,3) by (simp add: gestureEffect_def Let_def nopalm)
  have c3: "castStateOf s3 = Idle" using f3(2) by (simp add: castStateOf_def)
  have cost: "manaCost fireball = 15" by (simp add: fireball_def)
  from run2 c2 f2(1,5,6) run3 c3 f3(4) sh3 f3(1) cost f3(5,6) again
  show ?thesis by (intro exI [of _ s2] exI [of _ s3]) blast
qed

theorem fist_point_palm_casts_fireball_witness:
  "castStateOf (initialGame 800 600) = Idle
   \<and> manaCost fireball \<le> mana (initialGame 800 600)
   \<and> js_index (keypoints (sampleHand 100 300 ''palm'')) 8
        = Some \<lparr> kp_x = 100, kp_y = 300, kp_z = 0, kp_name = ''keypoint'' \<rparr>
   \<and> list_all reactive [Commit, AnimationFrame noJitter]
   \<and> list_all reactive [Commit, AnimationFrame noJitter, ChargeFrame 1100]
   \<and> list_all reactive [Commit, AnimationFrame noJitter, Commit, AnimationFrame noJitter]
   \<and> (\<exists>s3. run releaseTrace (initialGame 800 600) = Inr s3
          \<and> castStateOf s3 = Idle \<and> mana s3 = 85 \<and> spawnCount s3 = 1
          \<and> comboCountRef s3 = 1 \<and> comboTimeouts s3 = [5000]
          \<and> map (\<lambda>p. (proj_id p, proj_x p, proj_y p, length (particles p))) (projectiles s3)
              = [(1200, 130, 300, 6)])"
proof -
  let ?s = "initialGame 800 600"
  let ?tip = "\<lparr> kp_x = 100, kp_y = 300, kp_z = 0, kp_name = ''keypoint'' \<rparr>"
  let ?fs1 = "[Commit, AnimationFrame noJitter]"
  let ?fs2 = "[Commit, AnimationFrame noJitter, ChargeFrame 1100]"
  let ?fs3 = "[Commit, AnimationFrame noJitter, Commit, AnimationFrame noJitter]"
  let ?pre = "Detection (Some (sampleHand 100 300 ''fist'')) 1000 # ?fs1
       @ Detection (Some (sampleHand 100 300 ''point'')) 1100 # ?fs2"
  let ?post = "Detection (Some (sampleHand 100 300 ''palm'')) 1200 # ?fs3"
  have a: "castStateOf ?s = Idle" by (simp add: castStateOf_def initialGame_def)
  have b: "manaCost fireball \<le> mana ?s" by (simp add: fireball_def initialGame_def)
  have c: "js_index (keypoints (sampleHand 100 300 ''palm'')) 8 = Some ?tip"
    by (simp add: js_index_def sampleHand_def)
  have g: "gesture (sampleHand 100 300 ''fist'') = ''fist''"
    "gesture (sampleHand 100 300 ''point'') = ''point''"
    "gesture (sampleHand 100 300 ''palm'') = ''palm''"
    by (simp_all add: sampleHand_def)
  have f: "list_all reactive ?fs1" "list_all reactive ?fs2" "list_all reactive ?fs3"
    by simp_all
  from fist_point_palm_casts_fireball [OF a b g c f, of 1000 1100 1200 1300]
  obtain s2 s3 where
    r2: "run ?pre ?s = Inr s2"
    and r3: "run ?post s2 = Inr s3"
    and v: "castStateOf s3 = Idle" "spawnCount s3 = spawnCount ?s + 1"
      "mana s3 = mana ?s - manaCost fireball" "manaCost fireball = 15"
      "comboCountRef s3 = comboCountRef ?s + 1" "comboTimeouts s3 = comboTimeouts ?s @ [5000]"
    by blast
  have rt: "releaseTrace = ?pre @ ?post" by (simp add: releaseTrace_def)
  have "run releaseTrace ?s = (case run ?pre ?s of Inl e \<Rightarrow> Inl e | Inr s' \<Rightarrow> run ?post s')"
    unfolding rt by (rule run_append)
  also have "\<dots> = Inr s3" by (simp only: r2 sum.case r3)
  finally have r: "run releaseTrace ?s = Inr s3" .
  have w: "castStateOf s3 = Idle" "mana s3 = 85" "spawnCount s3 = 1" "comboCountRef s3 = 1"
    "comboTimeouts s3 = [5000]"
    using v by (simp_all add: initialGame_def spawnCount_def)
  have p: "map (\<lambda>p. (proj_id p, proj_x p, proj_y p, length (particles p))) (projectiles s3)
              = [(1200, 130, 300, 6)]"
    using release_trace_eval by (simp add: r)
  show ?thesis
    using a b c f r w p by (intro conjI exI [of _ s3]) assumption+
qed

subsection \<open>The point gesture\<close>

text \<open>
  C7 (as stated, refuted).  A hand with thumb and index extended and middle, ring and
  pinky curled is not classified unknown: the classifier answers point.
\<close>

theorem thumb_index_unknown_counterexample:
  "isExtended thumbIndexHand 4 2 = Inr True
   \<and> isExtended thumbIndexHand 8 6 = Inr True
   \<and> isExtended thumbIndexHand 12 10 = Inr False
   \<and> isExtended thumbIndexHand 16 14 = Inr False
   \<and> isExtended thumbIndexHand 20 18 = Inr False
   \<and> detectGesture (Some thumbIndexHand) = Inr ''point''
   \<and> detectGesture (Some thumbIndexHand) \<noteq> Inr ''unknown''"
  by (simp add: detectGesture_def isExtended_def js_index_def js_lt_def classify_def
        thumbIndexHand_def)

text \<open>
  C7 (amended).  The classifier answers point exactly for the landmark sets (with all
  the landmarks it reads present) whose index digit is extended and whose middle,
  ring and pinky digits are not; the thumb is not consulted.  In particular thumb
  and index extended with the other three curled is point.
\<close>

theorem point_ignores_thumb:
  "detectGesture (Some landmarks) = Inr ''point'' \<longleftrightarrow>
     (\<exists>thumb. isExtended landmarks 4 2 = Inr thumb)
     \<and> isExtended landmarks 8 6 = Inr True
     \<and> isExtended landmarks 12 10 = Inr False
     \<and> isExtended landmarks 16 14 = Inr False
     \<and> isExtended landmarks 20 18 = Inr False"
proof (cases "landmarks = []")
  case True
  then show ?thesis by (simp add: detectGesture_def isExtended_Nil)
next
  case False
  then show ?thesis
    by (auto simp add: detectGesture_def classify_point_iff split: sum.splits)
qed

subsection \<open>Damage of a collision\<close>

text \<open>
  C4.  In a frame, every projectile within the hit radius lowers the target's health
  by \<open>spell.damage * (1 + 0.1 * comboCount)\<close>, floored at 0, where \<open>comboCount\<close> is the
  value of the combo counter in the state the frame runs in, whatever it was when
  the projectile was cast (a projectile does not record it).  For a single
  projectile whose damage the target can absorb, the health drops by exactly that
  amount.
\<close>

theorem collision_damage_uses_current_combo:
  "health (scarecrow (updateProjectiles rnd s))
     = foldl (\<lambda>h p. max 0 (h - damage (proj_spell p) * (1 + 0.1 * real_of_int (comboCountRef s))))
         (health (scarecrow s)) (filter (\<lambda>p. distToTarget p < 30) (projectiles s))
   \<and> (projectiles s = [p] \<and> distToTarget p < 30
        \<and> damage (proj_spell p) * (1 + 0.1 * real_of_int (comboCountRef s)) \<le> health (scarecrow s)
      \<longrightarrow> health (scarecrow s) - health (scarecrow (updateProjectiles rnd s))
            = damage (proj_spell p) * (1 + 0.1 * real_of_int (comboCountRef s)))"
proof -
  have a: "health (scarecrow (updateProjectiles rnd s))
     = foldl (\<lambda>h p. max 0 (h - damage (proj_spell p) * (1 + 0.1 * real_of_int (comboCountRef s))))
         (health (scarecrow s)) (filter (\<lambda>p. distToTarget p < 30) (projectiles s))"
    using health_updateProjectiles [of rnd s]
    by (simp add: hitDamage_def isHit_def [abs_def])
  show ?thesis
  proof (intro conjI impI)
    show "health (scarecrow (updateProjectiles rnd s))
     = foldl (\<lambda>h p. max 0 (h - damage (proj_spell p) * (1 + 0.1 * real_of_int (comboCountRef s))))
         (health (scarecrow s)) (filter (\<lambda>p. distToTarget p < 30) (projectiles s))"
      by (rule a)
  next
    assume h: "projectiles s = [p] \<and> distToTarget p < 30
        \<and> damage (proj_spell p) * (1 + 0.1 * real_of_int (comboCountRef s)) \<le> health (scarecrow s)"
    then show "health (scarecrow s) - health (scarecrow (updateProjectiles rnd s))
            = damage (proj_spell p) * (1 + 0.1 * real_of_int (comboCountRef s))"
      by (simp add: a max_def)
  qed
qed

theorem collision_damage_uses_current_combo_witness:
  "projectiles impactGame = [fireballAtTarget] \<and> distToTarget fireballAtTarget < 30
   \<and> comboCountRef impactGame = 3
   \<and> damage (proj_spell fireballAtTarget) * (1 + 0.1 * real_of_int (comboCountRef impactGame)) = 39
   \<and> health (scarecrow impactGame) = 500
   \<and> health (scarecrow (updateProjectiles noJitter impactGame)) = 461"
proof -
  have a: "projectiles impactGame = [fireballAtTarget]" "comboCountRef impactGame = 3"
    "health (scarecrow impactGame) = 500"
    by (simp_all add: impactGame_def initialGame_def)
  have b: "distToTarget fireballAtTarget < 30" by (simp add: distToTarget_fireballAtTarget)
  have c: "damage (proj_spell fireballAtTarget) * (1 + 0.1 * real_of_int (comboCountRef impactGame)) = 39"
    by (simp add: a fireballAtTarget_def fireball_def)
  from collision_damage_uses_current_combo [of noJitter impactGame fireballAtTarget] a b c
  have "health (scarecrow impactGame) - health (scarecrow (updateProjectiles noJitter impactGame)) = 39"
    by simp
  with a b c show ?thesis by simp
qed

subsection \<open>Distance of a projectile in flight\<close>

text \<open>
  C5.  The distance of a projectile to its target point is never negative.  In a
  frame, a projectile of speed 15 at distance at least 30 (one that the frame does not
  resolve as a hit) stays in the list, its target point and speed unchanged, with its
  distance lowered by exactly 15, hence still non-negative and strictly smaller;
  and every projectile of the list after the frame is such a moved projectile.
  In every state the application reaches from its initial state, all projectiles
  have speed 15.
\<close>

theorem live_projectile_distance_decreases:
  "0 \<le> distToTarget p
   \<and> (i < length (projectiles s) \<and> p = projectiles s ! i \<and> 30 \<le> distToTarget p \<and> speed p = 15
       \<longrightarrow> moveProjectile (rnd i) p \<in> set (projectiles (updateProjectiles rnd s))
         \<and> distToTarget (moveProjectile (rnd i) p) = distToTarget p - 15
         \<and> 0 \<le> distToTarget (moveProjectile (rnd i) p)
         \<and> distToTarget (moveProjectile (rnd i) p) < distToTarget p
         \<and> targetX (moveProjectile (rnd i) p) = targetX p
         \<and> targetY (moveProjectile (rnd i) p) = targetY p
         \<and> speed (moveProjectile (rnd i) p) = 15)
   \<and> (\<forall>q \<in> set (projectiles (updateProjectiles rnd s)).
        \<exists>j < length (projectiles s).
          30 \<le> distToTarget (projectiles s ! j) \<and> q = moveProjectile (rnd j) (projectiles s ! j))
   \<and> (run es (initialGame w h) = Inr s \<longrightarrow> (\<forall>q \<in> set (projectiles s). speed q = 15))"
proof (intro conjI impI ballI)
  show "0 \<le> distToTarget p" by (rule distToTarget_nonneg)
next
  fix q assume "run es (initialGame w h) = Inr s" "q \<in> set (projectiles s)"
  then show "speed q = 15"
    using speedInv_run [OF speedInv_initialGame, of es w h s] by (simp add: speedInv_def)
next
  fix q assume "q \<in> set (projectiles (updateProjectiles rnd s))"
  then show "\<exists>j < length (projectiles s).
          30 \<le> distToTarget (projectiles s ! j) \<and> q = moveProjectile (rnd j) (projectiles s ! j)"
    by (auto simp add: set_projectiles_updateProjectiles)
next
  assume h: "i < length (projectiles s) \<and> p = projectiles s ! i \<and> 30 \<le> distToTarget p \<and> speed p = 15"
  then show "moveProjectile (rnd i) p \<in> set (projectiles (updateProjectiles rnd s))"
    by (auto simp add: set_projectiles_updateProjectiles)
  from h have sp: "speed p = 15" and far: "30 \<le> distToTarget p" by blast+
  show d: "distToTarget (moveProjectile (rnd i) p) = distToTarget p - 15"
    using distToTarget_moveProjectile [of p "rnd i"] sp far by simp
  from far d show "0 \<le> distToTarget (moveProjectile (rnd i) p)" by simp
  from d show "distToTarget (moveProjectile (rnd i) p) < distToTarget p" by simp
  show "targetX (moveProjectile (rnd i) p) = targetX p" by (simp add: moveProjectile_fields)
  show "targetY (moveProjectile (rnd i) p) = targetY p" by (simp add: moveProjectile_fields)
  from sp show "speed (moveProjectile (rnd i) p) = 15" by (simp add: moveProjectile_fields)
qed

theorem live_projectile_distance_decreases_witness:
  "0 < length (projectiles flightGame) \<and> fireballAt40 = projectiles flightGame ! 0
   \<and> 30 \<le> distToTarget fireballAt40 \<and> speed fireballAt40 = 15
   \<and> distToTarget fireballAt40 = 40
   \<and> distToTarget (moveProjectile (noJitter 0) fireballAt40) = 25
   \<and> projectiles (updateProjectiles noJitter flightGame) = [moveProjectile (noJitter 0) fireballAt40]
   \<and> (\<exists>s3. run castTrace (initialGame 800 600) = Inr s3 \<and> length (projectiles s3) = 1
          \<and> (\<forall>q \<in> set (projectiles s3). speed q = 15))"
proof -
  obtain s3 where r: "run castTrace (initialGame 800 600) = Inr s3"
    and l: "length (projectiles s3) = 1"
    by (simp add: castTrace_def initialGame_def gestureEffect_def castSpell_def sampleHand_def
          SPELLS_def fireball_def waterwave_def lightning_def js_index_def setMana_def
          setHandData_def renderApp_def Let_def)
  from live_projectile_distance_decreases [of _ _ s3 _ castTrace 800 600] r
  have sp: "\<forall>q \<in> set (projectiles s3). speed q = 15" by blast
  have a: "0 < length (projectiles flightGame)" "fireballAt40 = projectiles flightGame ! 0"
    "projectiles flightGame = [fireballAt40]"
    by (simp_all add: flightGame_def)
  have b: "30 \<le> distToTarget fireballAt40" "distToTarget fireballAt40 = 40"
    by (simp_all add: distToTarget_fireballAt40)
  have c: "speed fireballAt40 = 15" by (simp add: fireballAt40_def)
  from live_projectile_distance_decreases [of fireballAt40 0 flightGame noJitter] a b c
  have d: "distToTarget (moveProjectile (noJitter 0) fireballAt40) = 25"
    and m: "moveProjectile (noJitter 0) fireballAt40 \<in> set (projectiles (updateProjectiles noJitter flightGame))"
    and e: "\<forall>q \<in> set (projectiles (updateProjectiles noJitter flightGame)).
        \<exists>j < length (projectiles flightGame).
          30 \<le> distToTarget (projectiles flightGame ! j) \<and> q = moveProjectile (noJitter j) (projectiles flightGame ! j)"
    by simp_all
  have "projectiles (updateProjectiles noJitter flightGame) = [moveProjectile (noJitter 0) fireballAt40]"
    using a(3) b(1) by (simp add: updateProjectiles_single_move)
  with a b c d have "0 < length (projectiles flightGame) \<and> fireballAt40 = projectiles flightGame ! 0
   \<and> 30 \<le> distToTarget fireballAt40 \<and> speed fireballAt40 = 15
   \<and> distToTarget fireballAt40 = 40
   \<and> distToTarget (moveProjectile (noJitter 0) fireballAt40) = 25
   \<and> projectiles (updateProjectiles noJitter flightGame) = [moveProjectile (noJitter 0) fireballAt40]"
    by simp
  with r l sp show ?thesis by blast
qed

subsection \<open>Frames until a projectile hits\<close>



subsection \<open>Defeat of the target\<close>

text \<open>
  C3 (the code on a trace with one defeat).  From a state with 30 health left and a
  fireball at the target, the frame brings the health to 0 with +5 experience, and
  the commit registers one respawn timeout.  The next tick of the mana interval
  renders \<open>App\<close> again; the respawn effect sees a new \<open>onExperienceGain\<close> while the
  health is still 0 and registers a second timeout.  Both timeouts expire, each
  resetting the health to 500 and granting +50 experience: from experience 0 at
  level 1 the ledger ends at experience 5 at level 2, that is 105 points for one hit
  and one defeat, where one reward per defeat would give 55.
\<close>

theorem defeat_rewarded_twice:
  "ledger defeatGame = (30, 0, 1, [])
   \<and> map_sum id ledger (run (take 2 defeatTrace) defeatGame) = Inr (0, 5, 1, [1500])
   \<and> map_sum id ledger (run (take 4 defeatTrace) defeatGame) = Inr (0, 5, 1, [1500, 1500])
   \<and> map_sum id ledger (run (take 6 defeatTrace) defeatGame) = Inr (500, 55, 1, [1500])
   \<and> map_sum id ledger (run defeatTrace defeatGame) = Inr (500, 5, 2, [])"
proof -
  define s1 where "s1 = defeatGame\<lparr> scarecrow := \<lparr> target_x = 600, target_y = 300, health = 0, maxHealth = 500 \<rparr>,
     hitCount := 1, experience := 5, onExperienceGainId := 1, projectiles := [] \<rparr>"
  define s2 where "s2 = s1\<lparr> respawnDeps := Some (0, 1), respawnTimeouts := [1500] \<rparr>"
  define s3 where "s3 = s2\<lparr> mana := 87, onExperienceGainId := 2 \<rparr>"
  define s4 where "s4 = s3\<lparr> respawnDeps := Some (0, 2), respawnTimeouts := [1500, 1500] \<rparr>"
  define s5 where "s5 = s4\<lparr> respawnTimeouts := [1500],
     scarecrow := \<lparr> target_x = 600, target_y = 300, health = 500, maxHealth = 500 \<rparr>,
     experience := 55, onExperienceGainId := 3 \<rparr>"
  define s6 where "s6 = s5\<lparr> respawnDeps := Some (500, 3) \<rparr>"
  define s7 where "s7 = s6\<lparr> respawnTimeouts := [], level := 2, experience := 5,
     onExperienceGainId := 4 \<rparr>"
  define s8 where "s8 = s7\<lparr> respawnDeps := Some (500, 4) \<rparr>"
  note st = defeatGame_def initialGame_def s1_def s2_def s3_def s4_def s5_def s6_def s7_def s8_def
  have "(hitScarecrow 0 fireballAtTarget defeatGame)\<lparr> projectiles := [] \<rparr> = s1"
    by (simp add: hitScarecrow_def handleExperienceGain_def renderApp_def
          Let_def st fireballAtTarget_def fireball_def)
  then have e1: "step (AnimationFrame noJitter) defeatGame = Inr s1"
    by (simp only: step.simps frame_defeatGame)
  have e2: "step Commit s1 = Inr s2"
    by (simp add: respawnEffect_def respawnEffectBody_def Let_def st)
  have e3: "step ManaInterval s2 = Inr s3"
    by (simp add: manaRegen_def setMana_def renderApp_def st)
  have e4: "step Commit s3 = Inr s4"
    by (simp add: respawnEffect_def respawnEffectBody_def Let_def st)
  have e5: "step RespawnTimeout s4 = Inr s5"
    by (simp add: respawnTimeout_def handleExperienceGain_def renderApp_def Let_def st)
  have e6: "step Commit s5 = Inr s6"
    by (simp add: respawnEffect_def respawnEffectBody_def Let_def st)
  have e7: "step RespawnTimeout s6 = Inr s7"
    by (simp add: respawnTimeout_def handleExperienceGain_def renderApp_def Let_def st)
  have e8: "step Commit s7 = Inr s8"
    by (simp add: respawnEffect_def respawnEffectBody_def Let_def st)
  have t2: "take 2 defeatTrace = [AnimationFrame noJitter, Commit]"
    and t4: "take 4 defeatTrace = [AnimationFrame noJitter, Commit, ManaInterval, Commit]"
    and t6: "take 6 defeatTrace = [AnimationFrame noJitter, Commit, ManaInterval, Commit,
      RespawnTimeout, Commit]"
    by (simp_all add: defeatTrace_def)
  have r2: "run (take 2 defeatTrace) defeatGame = Inr s2"
    unfolding t2 by (simp only: run_step [OF e1] run_step [OF e2] run.simps(1))
  have r4: "run (take 4 defeatTrace) defeatGame = Inr s4"
    unfolding t4
    by (simp only: run_step [OF e1] run_step [OF e2] run_step [OF e3] run_step [OF e4]
          run.simps(1))
  have r6: "run (take 6 defeatTrace) defeatGame = Inr s6"
    unfolding t6
    by (simp only: run_step [OF e1] run_step [OF e2] run_step [OF e3] run_step [OF e4]
          run_step [OF e5] run_step [OF e6] run.simps(1))
  have r8: "run defeatTrace defeatGame = Inr s8"
    unfolding defeatTrace_def
    by (simp only: run_step [OF e1] run_step [OF e2] run_step [OF e3] run_step [OF e4]
          run_step [OF e5] run_step [OF e6] run_step [OF e7] run_step [OF e8] run.simps(1))
  have l0: "ledger defeatGame = (30, 0, 1, [])" by (simp add: ledger_def st)
  have l2: "ledger s2 = (0, 5, 1, [1500])" by (simp add: ledger_def st)
  have l4: "ledger s4 = (0, 5, 1, [1500, 1500])" by (simp add: ledger_def st)
  have l6: "ledger s6 = (500, 55, 1, [1500])" by (simp add: ledger_def st)
  have l8: "ledger s8 = (500, 5, 2, [])" by (simp add: ledger_def st)
  show ?thesis by (simp add: r2 r4 r6 r8 l0 l2 l4 l6 l8)
qed

end
